theory Spec2Isabelle
  imports Main "HOL-Library.AList"
begin

section \<open>Ledger-side data (the pycardano classes the converter reads)\<close>

text \<open>
  Byte strings (hashes, policy ids, token names, compiled scripts) are \<open>string\<close>s:
  a \<open>char\<close> is one byte, and \<open>b""\<close> is the empty list. Python's unbounded
  integers are \<open>int\<close>. An attribute that may be \<open>None\<close> is an \<open>option\<close>.
\<close>

type_synonym bytes = string

datatype plutus_data =
  Constr nat "plutus_data list" | DList "plutus_data list" | DInt int | DBytes bytes

text \<open>
  The payment and the staking part of an address are a verification key hash, a script
  hash, a pointer, or \<open>None\<close>; \<open>isinstance\<close> is a match on the constructor.
\<close>

datatype key_part = VerificationKeyHash bytes | ScriptHash bytes | PointerAddress int int int

record pycardano_address =
  payment_part :: "key_part option"
  staking_part :: "key_part option"

datatype redeemer_tag = SPEND | MINT | CERT | REWARD

record redeemer =
  tag :: redeemer_tag
  index :: int
  data :: plutus_data
  ex_units :: "(int \<times> int) option"

type_synonym script = bytes

text \<open>
  A \<open>MultiAsset\<close> is a dictionary from policy id to \<open>Asset\<close>, an \<open>Asset\<close> a
  dictionary from asset name to quantity. Both are association lists in insertion order.
\<close>

type_synonym asset = "(bytes \<times> int) list"
type_synonym multi_asset = "(bytes \<times> asset) list"

record pycardano_value =
  coin :: int
  multi_asset :: "multi_asset option"

record transaction_output =
  address :: pycardano_address
  amount :: pycardano_value
  datum_hash :: "bytes option"
  datum :: "plutus_data option"
  script :: "script option"

record transaction_input =
  transaction_id :: bytes
  index :: int

record utxo =
  input :: transaction_input
  "output" :: transaction_output

datatype certificate = Certificate bytes

record transaction_body =
  inputs :: "transaction_input list"
  outputs :: "transaction_output list"
  fee :: int
  ttl :: "int option"
  certificates :: "certificate list option"
  withdraws :: "(bytes \<times> int) list option"
  mint :: "multi_asset option"
  validity_start :: "int option"
  required_signers :: "bytes list option"
  reference_inputs :: "transaction_input list option"
  body_id :: bytes

record transaction_witness_set =
  redeemer :: "redeemer list option"
  plutus_v2_script :: "script list option"
  plutus_data :: "plutus_data list option"

record transaction =
  transaction_body :: transaction_body
  transaction_witness_set :: transaction_witness_set

text \<open>
  The library functions the module imports are parameters of the model: the hash
  functions \<open>plutus_script_hash\<close>, \<open>script_hash\<close> and \<open>datum_hash\<close> (the last is also
  applied to redeemers when the redeemer table is built), the staking part of a decoded
  reward address (\<open>Address.from_primitive(k).staking_part\<close>), and the attribute lookup
  \<open>minting_script.hash()\<close>, which is \<open>None\<close> where the script object has no such
  method (an AttributeError).
\<close>

record pycardano =
  plutus_script_hash :: "script \<Rightarrow> bytes"
  script_hash :: "script \<Rightarrow> bytes"
  datum_hash :: "plutus_data \<Rightarrow> bytes"
  redeemer_datum_hash :: "redeemer \<Rightarrow> bytes"
  reward_staking_part :: "bytes \<Rightarrow> key_part option"
  hash_attr :: "script \<Rightarrow> bytes option"

section \<open>Script-side data (the opshin prelude classes the converter builds)\<close>

text \<open>
  The prelude classes are built positionally in the source, so they are datatypes with
  positional constructors.
\<close>

datatype credential = PubKeyCredential bytes | ScriptCredential bytes

datatype staking_hash = StakingHash credential | StakingPtr int int int

datatype staking_credential = SomeStakingCredential staking_hash | NoStakingCredential

datatype plutus_address = Address credential staking_credential

datatype output_datum = NoOutputDatum | SomeOutputDatumHash bytes | SomeOutputDatum plutus_data

datatype script_hash_option = NoScriptHash | SomeScriptHash bytes

type_synonym plutus_value = "(bytes \<times> (bytes \<times> int) list) list"

datatype tx_out =
  TxOut (tx_out_address: plutus_address) (tx_out_value: plutus_value)
        (tx_out_datum: output_datum) (tx_out_reference_script: script_hash_option)

datatype tx_id = TxId bytes

datatype tx_out_ref = TxOutRef tx_id int

datatype tx_in_info = TxInInfo tx_out_ref tx_out

datatype bool_data = FalseData | TrueData

datatype extended_posix_time = NegInfPOSIXTime | FinitePOSIXTime int | PosInfPOSIXTime

datatype lower_bound_posix_time = LowerBoundPOSIXTime extended_posix_time bool_data

datatype upper_bound_posix_time = UpperBoundPOSIXTime extended_posix_time bool_data

datatype posix_time_range =
  POSIXTimeRange (lower_bound: lower_bound_posix_time) (upper_bound: upper_bound_posix_time)

datatype dcert = DCert

datatype tx_info =
  TxInfo (tx_info_inputs: "tx_in_info list") (tx_info_reference_inputs: "tx_in_info list")
         (tx_info_outputs: "tx_out list") (tx_info_fee: plutus_value)
         (tx_info_mint: plutus_value) (tx_info_dcert: "dcert list")
         (tx_info_wdrl: "(staking_hash \<times> int) list") (tx_info_valid_range: posix_time_range)
         (tx_info_signatories: "bytes list") (tx_info_datums: "(bytes \<times> plutus_data) list")
         (tx_info_redeemers: "(bytes \<times> redeemer) list") (tx_info_id: tx_id)

datatype script_purpose = Minting bytes | Spending tx_out_ref

datatype script_context = ScriptContext (tx_info: tx_info) (purpose: script_purpose)

record script_invocation =
  script_type :: script
  datum :: "plutus_data option"
  redeemer :: redeemer
  script_context :: script_context

section \<open>Exceptions\<close>

text \<open>
  One constructor per \<open>raise\<close> of the module and per uncaught runtime exception:
  \<^item> \<open>UnknownStakeKeyType\<close>, \<open>UnknownPaymentKeyType\<close>: the two
    \<open>NotImplementedError("Unknown ... key type")\<close> (the design's UnsupportedKeyType);
  \<^item> \<open>CertificatesUnsupported\<close>: \<open>NotImplementedError("Can not convert certificates yet")\<close>;
  \<^item> \<open>MissingRedeemer t i\<close>: \<open>ValueError("Missing redeemer for script input i")\<close> for
    \<open>t = SPEND\<close>, \<open>ValueError("Missing redeemer for mint i")\<close> for \<open>t = MINT\<close>;
  \<^item> \<open>UnsupportedScript\<close>: \<open>NotImplementedError("Can not validate spending of non
    plutus v2 script ...")\<close>;
  \<^item> \<open>MissingDatum (Some h)\<close>: \<open>ValueError("No datum with hash h provided")\<close>;
    \<open>MissingDatum None\<close>: \<open>ValueError("Spending input is missing an attached datum")\<close>;
  \<^item> \<open>TypeError\<close>, \<open>AttributeError\<close>: Python's own, where nothing catches them.
\<close>

datatype error =
  UnknownStakeKeyType | UnknownPaymentKeyType | CertificatesUnsupported
  | MissingRedeemer redeemer_tag nat | UnsupportedScript | MissingDatum "bytes option"
  | TypeError | AttributeError

section \<open>Helpers for Python idioms\<close>

text \<open>A list comprehension whose element expression may raise: the first exception wins.\<close>

fun map_result :: "('a \<Rightarrow> error + 'b) \<Rightarrow> 'a list \<Rightarrow> error + 'b list" where
  "map_result f [] = Inr []"
| "map_result f (x # xs) =
     (case f x of
        Inl e \<Rightarrow> Inl e
      | Inr y \<Rightarrow> (case map_result f xs of Inl e \<Rightarrow> Inl e | Inr ys \<Rightarrow> Inr (y # ys)))"

text \<open>Sequencing of calls that may raise: an exception ends the computation.\<close>

definition bind_result :: "error + 'a \<Rightarrow> ('a \<Rightarrow> error + 'b) \<Rightarrow> error + 'b" where
  "bind_result m f = (case m of Inl e \<Rightarrow> Inl e | Inr x \<Rightarrow> f x)"

text \<open>
  A dict comprehension: entries are stored in order, a repeated key overwrites the
  value and keeps the position of its first insertion.
\<close>

definition dict_of :: "('k \<times> 'v) list \<Rightarrow> ('k \<times> 'v) list" where
  "dict_of kvs = fold (\<lambda>(k, v). AList.update k v) kvs []"

text \<open>\<open>x or []\<close> for an optional list.\<close>

definition or_empty :: "'a list option \<Rightarrow> 'a list" where
  "or_empty x = (case x of None \<Rightarrow> [] | Some xs \<Rightarrow> xs)"

section \<open>The converters\<close>

fun to_staking_hash :: "key_part option \<Rightarrow> error + staking_hash" where
  "to_staking_hash (Some (PointerAddress slot tx_index cert_index)) =
     Inr (StakingPtr slot tx_index cert_index)"
| "to_staking_hash (Some (VerificationKeyHash payload)) =
     Inr (StakingHash (PubKeyCredential payload))"
| "to_staking_hash (Some (ScriptHash payload)) = Inr (StakingHash (ScriptCredential payload))"
| "to_staking_hash None = Inl UnknownStakeKeyType"

definition to_staking_credential :: "key_part option \<Rightarrow> staking_credential" where
  "to_staking_credential sk =
     (case to_staking_hash sk of
        Inr h \<Rightarrow> SomeStakingCredential h
      | Inl e \<Rightarrow> NoStakingCredential)"

definition to_wdrl ::
  "pycardano \<Rightarrow> (bytes \<times> int) list option \<Rightarrow> error + (staking_hash \<times> int) list" where
  "to_wdrl L wdrl =
     (case wdrl of
        None \<Rightarrow> Inr []
      | Some items \<Rightarrow>
          (case map_result
                  (\<lambda>(key, val).
                     case to_staking_hash (reward_staking_part L key) of
                       Inl e \<Rightarrow> Inl e
                     | Inr k \<Rightarrow> Inr (k, val))
                  items of
             Inl e \<Rightarrow> Inl e
           | Inr kvs \<Rightarrow> Inr (dict_of kvs)))"

definition to_valid_range :: "int option \<Rightarrow> int option \<Rightarrow> posix_time_range" where
  "to_valid_range validity_start' ttl' =
     (let lower =
            (case validity_start' of
               None \<Rightarrow> LowerBoundPOSIXTime NegInfPOSIXTime FalseData
             | Some s \<Rightarrow> LowerBoundPOSIXTime (FinitePOSIXTime s) TrueData);
          upper =
            (case ttl' of
               None \<Rightarrow> UpperBoundPOSIXTime PosInfPOSIXTime FalseData
             | Some t \<Rightarrow> UpperBoundPOSIXTime (FinitePOSIXTime t) TrueData)
      in POSIXTimeRange lower upper)"

definition to_pubkeyhash :: "bytes \<Rightarrow> bytes" where
  "to_pubkeyhash vkh = vkh"

definition to_tx_id :: "bytes \<Rightarrow> tx_id" where
  "to_tx_id i = TxId i"

definition to_dcert :: "certificate \<Rightarrow> error + dcert" where
  "to_dcert c = Inl CertificatesUnsupported"

text \<open>
  The pycardano dictionary classes are not among the repository's files; the module
  itself shows how they iterate. Line 284 iterates the mint (a \<open>MultiAsset\<close>) and
  compares each element with a script hash, so iterating such a dictionary yields its
  keys, and lines 53 and 89 call \<open>items()\<close> where the (key, value) pairs are wanted.
  \<open>to_shallow_primitive\<close> is the dictionary of the same keys and values (its order
  plays no part below).

  Line 87 iterates the \<open>Asset\<close> itself, without \<open>items()\<close>: each element is an asset
  name, and binding it to the two names \<open>(asset_name, quantity)\<close> raises TypeError (an
  asset name does not unpack). So the inner comprehension yields the empty dictionary
  for an empty asset and raises for every other one.
\<close>

definition to_shallow_primitive :: "multi_asset \<Rightarrow> multi_asset" where
  "to_shallow_primitive ma = ma"

definition asset_iter :: "asset \<Rightarrow> bytes list" where
  "asset_iter a = map fst a"

definition unpack_asset_name :: "bytes \<Rightarrow> error + (bytes \<times> int)" where
  "unpack_asset_name k = Inl TypeError"

definition multiasset_to_value :: "multi_asset option \<Rightarrow> error + plutus_value" where
  "multiasset_to_value ma =
     (case ma of
        None \<Rightarrow> Inr [([], [([], 0)])]
      | Some m \<Rightarrow>
          bind_result
            (map_result
               (\<lambda>(policy_id, asset).
                  bind_result (map_result unpack_asset_name (asset_iter asset))
                    (\<lambda>bound.
                       Inr (policy_id,
                            dict_of (map (\<lambda>(asset_name, quantity). (asset_name, quantity))
                                       bound))))
               (to_shallow_primitive m))
            (\<lambda>entries. Inr (dict_of entries)))"

definition value_to_value :: "pycardano_value \<Rightarrow> error + plutus_value" where
  "value_to_value v =
     bind_result (multiasset_to_value (multi_asset v))
       (\<lambda>ma. Inr (AList.update [] [([], coin v)] ma))"

fun to_payment_credential :: "key_part option \<Rightarrow> error + credential" where
  "to_payment_credential (Some (VerificationKeyHash h)) = Inr (PubKeyCredential h)"
| "to_payment_credential (Some (ScriptHash h)) = Inr (ScriptCredential h)"
| "to_payment_credential c = Inl UnknownPaymentKeyType"

definition to_address :: "pycardano_address \<Rightarrow> error + plutus_address" where
  "to_address a =
     (case to_payment_credential (payment_part a) of
        Inl e \<Rightarrow> Inl e
      | Inr c \<Rightarrow> Inr (Address c (to_staking_credential (staking_part a))))"

definition to_tx_out :: "pycardano \<Rightarrow> transaction_output \<Rightarrow> error + tx_out" where
  "to_tx_out L out =
     (let output_datum =
            (case transaction_output.datum out of
               Some d \<Rightarrow> SomeOutputDatum d
             | None \<Rightarrow>
                 (case transaction_output.datum_hash out of
                    Some h \<Rightarrow> SomeOutputDatumHash h
                  | None \<Rightarrow> NoOutputDatum));
          script_hash_opt =
            (case script out of
               None \<Rightarrow> NoScriptHash
             | Some s \<Rightarrow> SomeScriptHash (script_hash L s))
      in bind_result (to_address (address out))
           (\<lambda>a. bind_result (value_to_value (amount out))
                  (\<lambda>v. Inr (TxOut a v output_datum script_hash_opt))))"

definition to_tx_out_ref :: "transaction_input \<Rightarrow> tx_out_ref" where
  "to_tx_out_ref i = TxOutRef (TxId (transaction_id i)) (transaction_input.index i)"

definition to_tx_in_info ::
  "pycardano \<Rightarrow> transaction_input \<Rightarrow> transaction_output \<Rightarrow> error + tx_in_info" where
  "to_tx_in_info L i out =
     (case to_tx_out L out of
        Inl e \<Rightarrow> Inl e
      | Inr t \<Rightarrow> Inr (TxInInfo (to_tx_out_ref i) t))"

text \<open>
  \<open>to_tx_info\<close>: the datum list is collected first; then the twelve arguments of
  \<open>TxInfo\<close> are evaluated from left to right, and the first one that raises ends the
  call. Iterating the witness set's redeemers raises TypeError when that field is
  \<open>None\<close>.
\<close>

definition to_tx_info ::
  "pycardano \<Rightarrow> transaction \<Rightarrow> transaction_output list \<Rightarrow> transaction_output list
     \<Rightarrow> error + tx_info" where
  "to_tx_info L tx resolved_inputs resolved_reference_inputs =
     (let tx_body = transaction_body tx;
          datums0 =
            List.map_filter transaction_output.datum
              (outputs tx_body @ resolved_inputs @ resolved_reference_inputs);
          datums =
            (case plutus_data (transaction_witness_set tx) of
               None \<Rightarrow> datums0
             | Some [] \<Rightarrow> datums0
             | Some ds \<Rightarrow> datums0 @ ds)
      in
      bind_result
        (map_result (\<lambda>(i, out). to_tx_in_info L i out) (zip (inputs tx_body) resolved_inputs))
        (\<lambda>a1.
      bind_result
        (case reference_inputs tx_body of
           Some ris \<Rightarrow>
             map_result (\<lambda>(i, out). to_tx_in_info L i out) (zip ris resolved_reference_inputs)
         | None \<Rightarrow> Inr [])
        (\<lambda>a2.
      bind_result (map_result (to_tx_out L) (outputs tx_body))
        (\<lambda>a3.
      bind_result (value_to_value \<lparr>coin = fee tx_body, multi_asset = Some []\<rparr>)
        (\<lambda>a4.
      bind_result (multiasset_to_value (mint tx_body))
        (\<lambda>a5.
      bind_result
        (case certificates tx_body of
           None \<Rightarrow> Inr []
         | Some [] \<Rightarrow> Inr []
         | Some cs \<Rightarrow> map_result to_dcert cs)
        (\<lambda>a6.
      bind_result (to_wdrl L (withdraws tx_body))
        (\<lambda>a7.
      let a8 = to_valid_range (validity_start tx_body) (ttl tx_body);
          a9 = (case required_signers tx_body of
                  None \<Rightarrow> []
                | Some [] \<Rightarrow> []
                | Some ss \<Rightarrow> map to_pubkeyhash ss);
          a10 = dict_of (map (\<lambda>d. (pycardano.datum_hash L d, d)) datums)
      in
      bind_result
        (case transaction_witness_set.redeemer (transaction_witness_set tx) of
           None \<Rightarrow> Inl TypeError
         | Some rs \<Rightarrow> Inr (dict_of (map (\<lambda>r. (redeemer_datum_hash L r, r)) rs)))
        (\<lambda>a11.
      Inr (TxInfo a1 a2 a3 a4 a5 a6 a7 a8 a9 a10 a11 (to_tx_id (body_id tx_body))))))))))))"


section \<open>The witness resolver\<close>

definition is_script_input :: "utxo \<Rightarrow> bool" where
  "is_script_input spending_input =
     (case payment_part (address (output spending_input)) of
        Some (ScriptHash h) \<Rightarrow> True
      | _ \<Rightarrow> False)"

definition reference_scripts :: "utxo list \<Rightarrow> utxo list \<Rightarrow> script list" where
  "reference_scripts resolved_reference_inputs resolved_inputs =
     List.map_filter (\<lambda>i. script (output i)) (resolved_reference_inputs @ resolved_inputs)"

text \<open>
  The list object \<open>tx.transaction_witness_set.plutus_v2_script\<close> is the one piece of
  the transaction the resolver writes to, so its current content is threaded through the
  resolver as explicit state (\<open>pv2\<close> below); every other field is read from \<open>tx\<close>.

  \<open>potential_scripts = tx.transaction_witness_set.plutus_v2_script or []\<close> is the
  witness set's own list when that list is non-empty, and a fresh list when the field is
  \<open>None\<close> or empty. The appends that follow therefore land in the witness set's list in
  the first case only. \<open>potential_scripts\<close> returns the local list and the content of
  the witness set's list after the appends.
\<close>

definition potential_scripts ::
  "script list option \<Rightarrow> script list \<Rightarrow> script list \<times> script list option" where
  "potential_scripts pv2 refs =
     (case pv2 of
        Some (s # ss) \<Rightarrow> ((s # ss) @ refs, Some ((s # ss) @ refs))
      | _ \<Rightarrow> (refs, pv2))"

text \<open>
  The three lookups in the body of the first loop. The redeemer and the script searches
  catch TypeError (iterating \<open>None\<close>) together with StopIteration; \<open>next\<close> takes the
  first match. The script search iterates the witness set's list, not
  \<open>potential_scripts\<close>.
\<close>

definition spending_redeemer :: "transaction \<Rightarrow> nat \<Rightarrow> redeemer option" where
  "spending_redeemer tx i =
     (case transaction_witness_set.redeemer (transaction_witness_set tx) of
        None \<Rightarrow> None
      | Some rs \<Rightarrow> find (\<lambda>r. redeemer.index r = int i \<and> tag r = SPEND) rs)"

definition spending_script :: "pycardano \<Rightarrow> script list option \<Rightarrow> utxo \<Rightarrow> script option" where
  "spending_script L pv2 spending_input =
     (case pv2 of
        None \<Rightarrow> None
      | Some ss \<Rightarrow>
          find (\<lambda>s. Some (ScriptHash (plutus_script_hash L s))
                       = payment_part (address (output spending_input))) ss)"

definition spending_datum :: "pycardano \<Rightarrow> transaction \<Rightarrow> utxo \<Rightarrow> error + plutus_data" where
  "spending_datum L tx spending_input =
     (case transaction_output.datum (output spending_input) of
        Some d \<Rightarrow> Inr d
      | None \<Rightarrow>
          (case transaction_output.datum_hash (output spending_input) of
             Some datum_h \<Rightarrow>
               (case find (\<lambda>d. pycardano.datum_hash L d = datum_h)
                       (or_empty (plutus_data (transaction_witness_set tx))) of
                  Some d \<Rightarrow> Inr d
                | None \<Rightarrow> Inl (MissingDatum (Some datum_h)))
           | None \<Rightarrow> Inl (MissingDatum None)))"

text \<open>The body of the first loop for a script-controlled input at position \<open>i\<close>.\<close>

definition spending_invocation ::
  "pycardano \<Rightarrow> tx_info \<Rightarrow> transaction \<Rightarrow> utxo list \<Rightarrow> utxo list \<Rightarrow> script list option
     \<Rightarrow> nat \<Rightarrow> utxo \<Rightarrow> (error + script_invocation) \<times> script list option" where
  "spending_invocation L ti tx resolved_inputs resolved_reference_inputs pv2 i spending_input =
     (case spending_redeemer tx i of
        None \<Rightarrow> (Inl (MissingRedeemer SPEND i), pv2)
      | Some r \<Rightarrow>
          (let pv2' =
                 snd (potential_scripts pv2
                        (reference_scripts resolved_reference_inputs resolved_inputs))
           in case spending_script L pv2' spending_input of
                None \<Rightarrow> (Inl UnsupportedScript, pv2')
              | Some s \<Rightarrow>
                  (case spending_datum L tx spending_input of
                     Inl e \<Rightarrow> (Inl e, pv2')
                   | Inr d \<Rightarrow>
                       (Inr \<lparr>script_type = s,
                             datum = Some d,
                             redeemer = r,
                             script_context =
                               ScriptContext ti (Spending (to_tx_out_ref (input spending_input)))\<rparr>,
                        pv2'))))"

text \<open>
  The first loop, \<open>for i, spending_input in enumerate(resolved_inputs)\<close>, from position
  \<open>i\<close> on, with the invocations collected so far.
\<close>

fun spending_loop ::
  "pycardano \<Rightarrow> tx_info \<Rightarrow> transaction \<Rightarrow> utxo list \<Rightarrow> utxo list \<Rightarrow> script list option
     \<Rightarrow> script_invocation list \<Rightarrow> nat \<Rightarrow> utxo list
     \<Rightarrow> (error + script_invocation list) \<times> script list option" where
  "spending_loop L ti tx ris rris pv2 script_contexts i [] = (Inr script_contexts, pv2)"
| "spending_loop L ti tx ris rris pv2 script_contexts i (spending_input # rest) =
     (if \<not> is_script_input spending_input
      then spending_loop L ti tx ris rris pv2 script_contexts (Suc i) rest
      else (case spending_invocation L ti tx ris rris pv2 i spending_input of
              (Inl e, pv2') \<Rightarrow> (Inl e, pv2')
            | (Inr invocation, pv2') \<Rightarrow>
                spending_loop L ti tx ris rris pv2' (script_contexts @ [invocation]) (Suc i) rest))"

text \<open>
  The body of the second loop. Here only StopIteration is caught, so iterating a
  \<open>None\<close> field is a TypeError. The invocation is built by
  \<open>ScriptInvocation(minting_script, minting_redeemer, ScriptContext(tx_info,
  Minting(minting_script.hash())))\<close>: the arguments are evaluated first (the
  \<open>.hash()\<close> lookup may raise AttributeError), and the call then passes three positional
  arguments to a dataclass with four required fields (\<open>script_type\<close>, \<open>datum\<close>,
  \<open>redeemer\<close>, \<open>script_context\<close>), which is a TypeError.
\<close>

definition minting_invocation ::
  "pycardano \<Rightarrow> tx_info \<Rightarrow> transaction \<Rightarrow> script list option \<Rightarrow> nat \<Rightarrow> bytes
     \<Rightarrow> error + script_invocation" where
  "minting_invocation L ti tx pv2 i minting_script_hash =
     (case transaction_witness_set.redeemer (transaction_witness_set tx) of
        None \<Rightarrow> Inl TypeError
      | Some rs \<Rightarrow>
          (case find (\<lambda>r. redeemer.index r = int i \<and> tag r = MINT) rs of
             None \<Rightarrow> Inl (MissingRedeemer MINT i)
           | Some minting_redeemer \<Rightarrow>
               (case pv2 of
                  None \<Rightarrow> Inl TypeError
                | Some ss \<Rightarrow>
                    (case find (\<lambda>s. plutus_script_hash L s = minting_script_hash) ss of
                       None \<Rightarrow> Inl UnsupportedScript
                     | Some minting_script \<Rightarrow>
                         (case hash_attr L minting_script of
                            None \<Rightarrow> Inl AttributeError
                          | Some h \<Rightarrow> Inl TypeError)))))"

fun minting_loop ::
  "pycardano \<Rightarrow> tx_info \<Rightarrow> transaction \<Rightarrow> script list option \<Rightarrow> script_invocation list
     \<Rightarrow> nat \<Rightarrow> bytes list \<Rightarrow> error + script_invocation list" where
  "minting_loop L ti tx pv2 script_contexts i [] = Inr script_contexts"
| "minting_loop L ti tx pv2 script_contexts i (minting_script_hash # rest) =
     (case minting_invocation L ti tx pv2 i minting_script_hash of
        Inl e \<Rightarrow> Inl e
      | Inr invocation \<Rightarrow> minting_loop L ti tx pv2 (script_contexts @ [invocation]) (Suc i) rest)"

text \<open>
  \<open>enumerate(tx.transaction_body.mint or [])\<close>: the second loop compares each element
  with a script hash, so iterating the mint yields its policy ids, in the map's order; an
  absent or empty mint yields none.
\<close>

definition mint_policies :: "transaction \<Rightarrow> bytes list" where
  "mint_policies tx = (case mint (transaction_body tx) of None \<Rightarrow> [] | Some m \<Rightarrow> map fst m)"

text \<open>
  \<open>generate_script_contexts_resolved\<close> returns what the Python function returns or
  raises, paired with the final content of the witness set's script list.
\<close>

definition generate_script_contexts_resolved ::
  "pycardano \<Rightarrow> transaction \<Rightarrow> utxo list \<Rightarrow> utxo list
     \<Rightarrow> (error + script_invocation list) \<times> script list option" where
  "generate_script_contexts_resolved L tx resolved_inputs resolved_reference_inputs =
     (let pv2 = plutus_v2_script (transaction_witness_set tx) in
      case to_tx_info L tx (map output resolved_inputs) (map output resolved_reference_inputs) of
        Inl e \<Rightarrow> (Inl e, pv2)
      | Inr ti \<Rightarrow>
          (case spending_loop L ti tx resolved_inputs resolved_reference_inputs pv2 [] 0
                  resolved_inputs of
             (Inl e, pv2') \<Rightarrow> (Inl e, pv2')
           | (Inr script_contexts, pv2') \<Rightarrow>
               (minting_loop L ti tx pv2' script_contexts 0 (mint_policies tx), pv2')))"


section \<open>Predicates used in the statements\<close>

text \<open>
  An output whose address has a payment part that \<open>to_payment_credential\<close> converts: a
  verification key hash or a script hash.
\<close>

definition payment_supported :: "transaction_output \<Rightarrow> bool" where
  "payment_supported out =
     (case payment_part (address out) of
        Some (VerificationKeyHash h) \<Rightarrow> True
      | Some (ScriptHash h) \<Rightarrow> True
      | _ \<Rightarrow> False)"

text \<open>
  A multi-asset whose conversion does not reach the binding of line 87: it is absent, or
  every asset in it is empty. An output converts when its payment part is supported and
  its amount is such a value.
\<close>

definition token_free :: "multi_asset option \<Rightarrow> bool" where
  "token_free ma =
     (case ma of None \<Rightarrow> True | Some m \<Rightarrow> list_all (\<lambda>(policy_id, asset). asset = []) m)"

definition output_converts :: "transaction_output \<Rightarrow> bool" where
  "output_converts out \<longleftrightarrow> payment_supported out \<and> token_free (multi_asset (amount out))"

section \<open>Example transactions\<close>

text \<open>
  A concrete library instance (a hash is the hashed bytes behind a \<open>#\<close>; compiled
  scripts are plain byte strings without a \<open>hash\<close> method) and builders for small
  transactions, used to run the model on concrete inputs.
\<close>

definition ex_lib :: pycardano where
  "ex_lib = \<lparr>plutus_script_hash = (\<lambda>s. ''#'' @ s), script_hash = (\<lambda>s. ''#'' @ s),
     pycardano.datum_hash = (\<lambda>d. case d of DBytes b \<Rightarrow> ''#'' @ b | _ \<Rightarrow> ''#''),
     redeemer_datum_hash = (\<lambda>r. ''r''), reward_staking_part = (\<lambda>k. None),
     hash_attr = (\<lambda>s. None)\<rparr>"

definition ex_output ::
  "key_part option \<Rightarrow> plutus_data option \<Rightarrow> bytes option \<Rightarrow> script option \<Rightarrow> transaction_output" where
  "ex_output pay d h s =
     \<lparr>address = \<lparr>payment_part = pay, staking_part = None\<rparr>,
      amount = \<lparr>coin = 5, multi_asset = Some []\<rparr>,
      transaction_output.datum_hash = h, transaction_output.datum = d, script = s\<rparr>"

definition ex_input :: "nat \<Rightarrow> transaction_input" where
  "ex_input n = \<lparr>transaction_id = ''tx'', transaction_input.index = int n\<rparr>"

definition ex_tx ::
  "transaction_input list \<Rightarrow> transaction_input list option \<Rightarrow> multi_asset option
     \<Rightarrow> certificate list option \<Rightarrow> redeemer list option \<Rightarrow> script list option
     \<Rightarrow> plutus_data list option \<Rightarrow> transaction" where
  "ex_tx ins refs m certs rs ss ds =
     \<lparr>transaction_body =
        \<lparr>inputs = ins, outputs = [], fee = 2, ttl = None, certificates = certs,
         withdraws = None, mint = m, validity_start = None, required_signers = None,
         reference_inputs = refs, body_id = ''id''\<rparr>,
      transaction_witness_set =
        \<lparr>transaction_witness_set.redeemer = rs, plutus_v2_script = ss, plutus_data = ds\<rparr>\<rparr>"

definition ex_redeemer :: "redeemer_tag \<Rightarrow> int \<Rightarrow> int \<Rightarrow> redeemer" where
  "ex_redeemer t i d = \<lparr>tag = t, redeemer.index = i, data = DInt d, ex_units = None\<rparr>"

definition ex_script_utxo :: utxo where
  "ex_script_utxo =
     \<lparr>input = ex_input 0,
      output = ex_output (Some (ScriptHash ''#S'')) (Some (DInt 7)) None None\<rparr>"

definition ex_ref_utxo :: utxo where
  "ex_ref_utxo =
     \<lparr>input = ex_input 1,
      output = ex_output (Some (VerificationKeyHash ''k'')) None None (Some ''S'')\<rparr>"

definition ex_key_utxo :: utxo where
  "ex_key_utxo =
     \<lparr>input = ex_input 2,
      output = ex_output (Some (VerificationKeyHash ''k'')) None (Some ''#d'') None\<rparr>"

definition ex_hash_utxo :: utxo where
  "ex_hash_utxo =
     \<lparr>input = ex_input 3,
      output = ex_output (Some (ScriptHash ''#S'')) None (Some ''#d'') None\<rparr>"

definition ex_bare_utxo :: utxo where
  "ex_bare_utxo =
     \<lparr>input = ex_input 4, output = ex_output (Some (ScriptHash ''#S'')) None None None\<rparr>"

definition ex_nopay_utxo :: utxo where
  "ex_nopay_utxo = \<lparr>input = ex_input 5, output = ex_output None None None None\<rparr>"

definition ex_token_utxo :: utxo where
  "ex_token_utxo =
     \<lparr>input = ex_input 6,
      output = (ex_output (Some (VerificationKeyHash ''k'')) None None None)
                 \<lparr>amount := \<lparr>coin = 5, multi_asset = Some [(''P'', [(''T'', 1)])]\<rparr>\<rparr>\<rparr>"

section \<open>Basic facts about the helpers\<close>

lemma bind_result_simps [simp]:
  "bind_result (Inl e) f = Inl e" "bind_result (Inr x) f = f x"
  by (simp_all add: bind_result_def)

lemma bind_result_Inr_iff: "bind_result m f = Inr y \<longleftrightarrow> (\<exists>x. m = Inr x \<and> f x = Inr y)"
  by (cases m) simp_all

lemma map_result_ok:
  "(\<And>x. x \<in> set xs \<Longrightarrow> \<exists>y. f x = Inr y) \<Longrightarrow> \<exists>ys. map_result f xs = Inr ys"
proof (induction xs)
  case Nil
  show ?case by simp
next
  case (Cons x xs)
  obtain y where y: "f x = Inr y" using Cons.prems by auto
  obtain ys where ys: "map_result f xs = Inr ys" using Cons by auto
  show ?case by (simp add: y ys)
qed

lemma map_result_to_dcert: "map_result to_dcert (c # cs) = Inl CertificatesUnsupported"
  by (simp add: to_dcert_def)

section \<open>The value converter\<close>

lemma map_result_unpack:
  "map_result unpack_asset_name ks = (if ks = [] then Inr [] else Inl TypeError)"
  by (cases ks) (simp_all add: unpack_asset_name_def)

lemma multiasset_to_value_token_free:
  assumes "token_free ma"
  shows "\<exists>v. multiasset_to_value ma = Inr v"
proof (cases ma)
  case None
  then show ?thesis by (simp add: multiasset_to_value_def)
next
  case (Some m)
  have "\<exists>ys. map_result
          (\<lambda>(policy_id, asset).
             bind_result (map_result unpack_asset_name (asset_iter asset))
               (\<lambda>bound.
                  Inr (policy_id,
                       dict_of (map (\<lambda>(asset_name, quantity). (asset_name, quantity)) bound))))
          m = Inr ys"
  proof (rule map_result_ok)
    fix x assume "x \<in> set m"
    then have "snd x = []" using assms Some by (auto simp: token_free_def list_all_iff)
    then show "\<exists>y. (case x of (policy_id, asset) \<Rightarrow>
             bind_result (map_result unpack_asset_name (asset_iter asset))
               (\<lambda>bound.
                  Inr (policy_id,
                       dict_of (map (\<lambda>(asset_name, quantity). (asset_name, quantity)) bound))))
           = Inr y"
      by (cases x) (simp add: map_result_unpack asset_iter_def)
  qed
  then show ?thesis
    using Some by (auto simp: multiasset_to_value_def to_shallow_primitive_def)
qed

lemma value_to_value_token_free:
  assumes "token_free (multi_asset v)"
  shows "\<exists>ma. value_to_value v = Inr ma \<and> map_of ma [] = Some [([], coin v)]"
proof -
  obtain m where "multiasset_to_value (multi_asset v) = Inr m"
    using multiasset_to_value_token_free [OF assms] by blast
  then show ?thesis by (simp add: value_to_value_def update_conv')
qed

text \<open>
  C3 at inputs the converter can receive. A ledger amount with one token (coin 3 and
  one unit of \<open>T\<close> under policy \<open>P\<close>): \<open>value_to_value\<close> raises TypeError on line 87,
  where the claim has it return the coin under the native-currency key and carry the
  entries of \<open>P\<close> over; \<open>multiasset_to_value\<close> raises likewise. A present multi-asset
  map that does convert (a policy with an empty asset) yields a value with no
  native-currency entry.
\<close>

theorem value_to_value_raises:
  "value_to_value \<lparr>coin = 3, multi_asset = Some [(''P'', [(''T'', 1)])]\<rparr> = Inl TypeError
   \<and> multiasset_to_value (Some [(''P'', [(''T'', 1)])]) = Inl TypeError
   \<and> map_sum id (\<lambda>v. map_of v []) (multiasset_to_value (Some [(''P'', [])])) = Inr None"
  by (simp add: value_to_value_def multiasset_to_value_def to_shallow_primitive_def
        asset_iter_def unpack_asset_name_def dict_of_def)

section \<open>The TxInfo builder and the leaf converters\<close>

lemma to_tx_out_ok: "output_converts out \<Longrightarrow> \<exists>t. to_tx_out L out = Inr t"
proof -
  assume a: "output_converts out"
  then obtain c where c: "to_payment_credential (payment_part (address out)) = Inr c"
    by (auto simp: output_converts_def payment_supported_def split: option.splits key_part.splits)
  obtain v where v: "value_to_value (amount out) = Inr v"
    using a value_to_value_token_free [of "amount out"] by (auto simp: output_converts_def)
  show ?thesis by (simp add: to_tx_out_def to_address_def Let_def c v)
qed

lemma to_tx_in_info_zip_ok:
  assumes "list_all output_converts outs"
  shows "\<exists>ys. map_result (\<lambda>(i, out). to_tx_in_info L i out) (zip ins outs) = Inr ys"
proof (rule map_result_ok)
  fix x assume "x \<in> set (zip ins outs)"
  then have "snd x \<in> set outs" by (metis in_set_zipE prod.collapse)
  then have "output_converts (snd x)" using assms by (simp add: list_all_iff)
  then obtain t where "to_tx_out L (snd x) = Inr t" using to_tx_out_ok by blast
  then show "\<exists>y. (case x of (i, out) \<Rightarrow> to_tx_in_info L i out) = Inr y"
    by (cases x) (simp add: to_tx_in_info_def)
qed

text \<open>
  C7, as the code has it. A transaction body with a certificate never yields a TxInfo.
  The exception is the certificate one (CertificatesUnsupported) whenever the arguments
  evaluated before the certificates convert: every resolved input, resolved reference
  input and output has a supported payment part and a value that converts, and so does
  the mint. With no certificate (the field is \<open>None\<close> or empty), a TxInfo that is built
  has the empty list as its certificates.
\<close>

theorem to_tx_info_certificates:
  "(certificates (transaction_body tx) = Some (c # cs) \<longrightarrow>
      (\<forall>ti. to_tx_info L tx ri rri \<noteq> Inr ti) \<and>
      (list_all output_converts (ri @ rri @ outputs (transaction_body tx))
         \<and> token_free (mint (transaction_body tx)) \<longrightarrow>
         to_tx_info L tx ri rri = Inl CertificatesUnsupported))
   \<and> (certificates (transaction_body tx) = None \<or> certificates (transaction_body tx) = Some [] \<longrightarrow>
        (\<forall>ti. to_tx_info L tx ri rri = Inr ti \<longrightarrow> tx_info_dcert ti = []))"
proof (intro conjI impI allI)
  fix ti
  assume "certificates (transaction_body tx) = Some (c # cs)"
  then show "to_tx_info L tx ri rri \<noteq> Inr ti"
    by (auto simp: to_tx_info_def Let_def bind_result_Inr_iff to_dcert_def)
next
  assume cert: "certificates (transaction_body tx) = Some (c # cs)"
    and ok: "list_all output_converts (ri @ rri @ outputs (transaction_body tx))
         \<and> token_free (mint (transaction_body tx))"
  obtain a1 where a1:
    "map_result (\<lambda>(i, out). to_tx_in_info L i out) (zip (inputs (transaction_body tx)) ri) = Inr a1"
    using to_tx_in_info_zip_ok [of ri L] ok by auto
  obtain a2 where a2:
    "(case reference_inputs (transaction_body tx) of
        Some ris \<Rightarrow> map_result (\<lambda>(i, out). to_tx_in_info L i out) (zip ris rri)
      | None \<Rightarrow> Inr []) = Inr a2"
    using to_tx_in_info_zip_ok [of rri L] ok by (cases "reference_inputs (transaction_body tx)") auto
  obtain a3 where a3: "map_result (to_tx_out L) (outputs (transaction_body tx)) = Inr a3"
    using map_result_ok [of "outputs (transaction_body tx)" "to_tx_out L"] to_tx_out_ok ok
    by (auto simp: list_all_iff)
  obtain a4 where a4:
    "value_to_value \<lparr>coin = fee (transaction_body tx), multi_asset = Some []\<rparr> = Inr a4"
    using value_to_value_token_free [of "\<lparr>coin = fee (transaction_body tx), multi_asset = Some []\<rparr>"]
    by (auto simp: token_free_def)
  obtain a5 where a5: "multiasset_to_value (mint (transaction_body tx)) = Inr a5"
    using multiasset_to_value_token_free ok by blast
  show "to_tx_info L tx ri rri = Inl CertificatesUnsupported"
    by (simp add: to_tx_info_def Let_def a1 a2 a3 a4 a5 cert to_dcert_def)
next
  fix ti
  assume "certificates (transaction_body tx) = None \<or> certificates (transaction_body tx) = Some []"
    and "to_tx_info L tx ri rri = Inr ti"
  then show "tx_info_dcert ti = []"
    by (auto simp: to_tx_info_def Let_def bind_result_Inr_iff)
qed

theorem to_tx_info_certificates_witness:
  "to_tx_info ex_lib (ex_tx [ex_input 2] None None (Some [Certificate ''c'']) (Some []) None None)
       [output ex_key_utxo] [] = Inl CertificatesUnsupported
   \<and> (case to_tx_info ex_lib (ex_tx [ex_input 2] None None None (Some []) None None)
              [output ex_key_utxo] [] of
         Inr ti \<Rightarrow> tx_info_dcert ti = []
       | Inl e \<Rightarrow> False)"
proof -
  let ?tx1 = "ex_tx [ex_input 2] None None (Some [Certificate ''c'']) (Some []) None None"
  let ?tx2 = "ex_tx [ex_input 2] None None None (Some []) None None"
  have cert: "certificates (transaction_body ?tx1) = Some (Certificate ''c'' # [])"
    by (simp add: ex_tx_def)
  have ok: "list_all output_converts ([output ex_key_utxo] @ [] @ outputs (transaction_body ?tx1))
      \<and> token_free (mint (transaction_body ?tx1))"
    by (simp add: ex_tx_def ex_key_utxo_def ex_output_def payment_supported_def
          output_converts_def token_free_def)
  have none: "certificates (transaction_body ?tx2) = None"
    by (simp add: ex_tx_def)
  have 1: "to_tx_info ex_lib ?tx1 [output ex_key_utxo] [] = Inl CertificatesUnsupported"
    using to_tx_info_certificates [of ?tx1 "Certificate ''c''" "[]" ex_lib "[output ex_key_utxo]" "[]"]
      cert ok by blast
  have 2: "\<forall>ti. to_tx_info ex_lib ?tx2 [output ex_key_utxo] [] = Inr ti \<longrightarrow> tx_info_dcert ti = []"
    using to_tx_info_certificates [of ?tx2 _ _ ex_lib "[output ex_key_utxo]" "[]"] none by blast
  have 3: "\<not> isl (to_tx_info ex_lib ?tx2 [output ex_key_utxo] [])"
    by code_simp
  show ?thesis using 1 2 3 by (auto split: sum.splits)
qed

text \<open>
  A certificate together with an input whose address has no payment part raises the
  payment-key exception first; a certificate together with an input holding a token
  raises TypeError (line 87) first. Neither is CertificatesUnsupported.
\<close>

theorem to_tx_info_certificates_counterexample:
  "to_tx_info ex_lib (ex_tx [ex_input 5] None None (Some [Certificate ''c'']) (Some []) None None)
       [output ex_nopay_utxo] [] = Inl UnknownPaymentKeyType
   \<and> to_tx_info ex_lib (ex_tx [ex_input 6] None None (Some [Certificate ''c'']) (Some []) None None)
       [output ex_token_utxo] [] = Inl TypeError"
  by code_simp

text \<open>
  C8. The time-range conversion: an absent validity start gives the lower bound
  NegInfPOSIXTime marked not closed (exclusive), a present start \<open>s\<close> gives
  FinitePOSIXTime \<open>s\<close> marked closed (inclusive); an absent ttl gives the upper bound
  PosInfPOSIXTime marked not closed, a present ttl \<open>e\<close> gives FinitePOSIXTime \<open>e\<close>
  marked closed. The two bounds do not depend on each other.
\<close>

theorem to_valid_range_bounds:
  "lower_bound (to_valid_range None t) = LowerBoundPOSIXTime NegInfPOSIXTime FalseData
   \<and> lower_bound (to_valid_range (Some s) t) = LowerBoundPOSIXTime (FinitePOSIXTime s) TrueData
   \<and> upper_bound (to_valid_range v None) = UpperBoundPOSIXTime PosInfPOSIXTime FalseData
   \<and> upper_bound (to_valid_range v (Some e)) = UpperBoundPOSIXTime (FinitePOSIXTime e) TrueData"
  by (simp add: to_valid_range_def)

text \<open>
  C9. Every converted output carries exactly one output-datum variant: the inline
  variant when the source's datum field is populated (whatever the datum-hash field
  holds), the hash variant when only the datum-hash field is populated, and
  NoOutputDatum when neither is.
\<close>

theorem to_tx_out_datum:
  assumes "to_tx_out L out = Inr t"
  shows "tx_out_datum t =
     (case transaction_output.datum out of
        Some d \<Rightarrow> SomeOutputDatum d
      | None \<Rightarrow> (case transaction_output.datum_hash out of
                   Some h \<Rightarrow> SomeOutputDatumHash h
                 | None \<Rightarrow> NoOutputDatum))"
  using assms by (auto simp: to_tx_out_def Let_def bind_result_Inr_iff)

theorem to_tx_out_datum_witness:
  "map_sum id tx_out_datum
     (to_tx_out ex_lib (ex_output (Some (VerificationKeyHash ''k'')) (Some (DInt 7)) (Some ''#d'') None))
     = Inr (SomeOutputDatum (DInt 7))
   \<and> map_sum id tx_out_datum (to_tx_out ex_lib (output ex_key_utxo)) = Inr (SomeOutputDatumHash ''#d'')
   \<and> map_sum id tx_out_datum (to_tx_out ex_lib (output ex_script_utxo)) = Inr (SomeOutputDatum (DInt 7))
   \<and> map_sum id tx_out_datum (to_tx_out ex_lib (output ex_ref_utxo)) = Inr NoOutputDatum"
proof -
  have ok: "\<And>out. output_converts out \<Longrightarrow> map_sum id tx_out_datum (to_tx_out ex_lib out)
      = Inr (case transaction_output.datum out of
        Some d \<Rightarrow> SomeOutputDatum d
      | None \<Rightarrow> (case transaction_output.datum_hash out of
                   Some h \<Rightarrow> SomeOutputDatumHash h
                 | None \<Rightarrow> NoOutputDatum))"
  proof -
    fix out assume "output_converts out"
    then obtain t where t: "to_tx_out ex_lib out = Inr t" using to_tx_out_ok by blast
    show "map_sum id tx_out_datum (to_tx_out ex_lib out)
      = Inr (case transaction_output.datum out of
        Some d \<Rightarrow> SomeOutputDatum d
      | None \<Rightarrow> (case transaction_output.datum_hash out of
                   Some h \<Rightarrow> SomeOutputDatumHash h
                 | None \<Rightarrow> NoOutputDatum))"
      using to_tx_out_datum [OF t] t by simp
  qed
  show ?thesis
    by (simp add: ok payment_supported_def output_converts_def token_free_def ex_output_def
          ex_key_utxo_def ex_script_utxo_def ex_ref_utxo_def)
qed

section \<open>The two loops of the resolver\<close>

lemma spending_invocation_Inr:
  assumes "spending_invocation L ti tx ris rris pv2 i u = (Inr invocation, p)"
  shows "\<exists>r s d. spending_redeemer tx i = Some r
           \<and> p = snd (potential_scripts pv2 (reference_scripts rris ris))
           \<and> spending_script L p u = Some s
           \<and> spending_datum L tx u = Inr d
           \<and> invocation = \<lparr>script_type = s, datum = Some d, redeemer = r,
                script_context = ScriptContext ti (Spending (to_tx_out_ref (input u)))\<rparr>"
  using assms
  by (auto simp: spending_invocation_def Let_def split: option.splits sum.splits)

lemma spending_loop_append:
  "spending_loop L ti tx ris rris pv2 acc i (xs @ ys) =
     (case spending_loop L ti tx ris rris pv2 acc i xs of
        (Inl e, p) \<Rightarrow> (Inl e, p)
      | (Inr acc', p) \<Rightarrow> spending_loop L ti tx ris rris p acc' (i + length xs) ys)"
proof (induction xs arbitrary: pv2 acc i)
  case Nil
  show ?case by simp
next
  case (Cons x xs)
  show ?case
  proof (cases "is_script_input x")
    case False
    then show ?thesis by (simp add: Cons.IH split: prod.splits sum.splits)
  next
    case True
    obtain res p where step: "spending_invocation L ti tx ris rris pv2 i x = (res, p)"
      by (cases "spending_invocation L ti tx ris rris pv2 i x")
    show ?thesis
    proof (cases res)
      case (Inl e)
      then show ?thesis using True step by simp
    next
      case (Inr invocation)
      then show ?thesis using True step by (simp add: Cons.IH split: prod.splits sum.splits)
    qed
  qed
qed

lemma spending_loop_extends:
  assumes "spending_loop L ti tx ris rris pv2 acc i xs = (Inr r, p)"
  shows "\<exists>ys. r = acc @ ys
           \<and> map (\<lambda>c. purpose (script_context c)) ys
               = map (\<lambda>u. Spending (to_tx_out_ref (input u))) (filter is_script_input xs)"
  using assms
proof (induction xs arbitrary: pv2 acc i)
  case Nil
  then show ?case by simp
next
  case (Cons x xs)
  show ?case
  proof (cases "is_script_input x")
    case False
    then show ?thesis using Cons.IH [of pv2 acc "Suc i"] Cons.prems by simp
  next
    case True
    obtain res q where step: "spending_invocation L ti tx ris rris pv2 i x = (res, q)"
      by (cases "spending_invocation L ti tx ris rris pv2 i x")
    show ?thesis
    proof (cases res)
      case (Inl e)
      then show ?thesis using True step Cons.prems by simp
    next
      case (Inr invocation)
      then have "spending_loop L ti tx ris rris q (acc @ [invocation]) (Suc i) xs = (Inr r, p)"
        using True step Cons.prems by simp
      then obtain ys where ys: "r = (acc @ [invocation]) @ ys"
        "map (\<lambda>c. purpose (script_context c)) ys
           = map (\<lambda>u. Spending (to_tx_out_ref (input u))) (filter is_script_input xs)"
        using Cons.IH by blast
      have "purpose (script_context invocation) = Spending (to_tx_out_ref (input x))"
        using spending_invocation_Inr [of L ti tx ris rris pv2 i x invocation q] step Inr by auto
      then show ?thesis using ys True by simp
    qed
  qed
qed

lemma minting_invocation_Inl: "minting_invocation L ti tx pv2 i h \<noteq> Inr invocation"
  by (simp add: minting_invocation_def split: option.splits)

lemma minting_loop_Inr_iff:
  "minting_loop L ti tx pv2 acc i ps = Inr r \<longleftrightarrow> ps = [] \<and> r = acc"
proof (cases ps)
  case Nil
  then show ?thesis by auto
next
  case (Cons h hs)
  then show ?thesis
    using minting_invocation_Inl [of L ti tx pv2 i h]
    by (cases "minting_invocation L ti tx pv2 i h") auto
qed

lemma generate_Inr:
  assumes "generate_script_contexts_resolved L tx ris rris = (Inr invs, p)"
  shows "\<exists>ti. to_tx_info L tx (map output ris) (map output rris) = Inr ti
           \<and> spending_loop L ti tx ris rris (plutus_v2_script (transaction_witness_set tx)) [] 0 ris
               = (Inr invs, p)
           \<and> mint_policies tx = []"
  using assms
  by (auto simp: generate_script_contexts_resolved_def Let_def minting_loop_Inr_iff
      split: sum.splits prod.splits)

lemma spending_loop_at:
  assumes run: "spending_loop L ti tx ris rris pv2 acc i xs = (Inr invs, p)"
    and k: "k < length xs" and scr: "is_script_input (xs ! k)"
  shows "\<exists>acck pk invocation pk'.
           spending_loop L ti tx ris rris pv2 acc i (take k xs) = (Inr acck, pk)
           \<and> spending_invocation L ti tx ris rris pk (i + k) (xs ! k) = (Inr invocation, pk')
           \<and> length acc + length (filter is_script_input (take k xs)) < length invs
           \<and> invs ! (length acc + length (filter is_script_input (take k xs))) = invocation"
proof -
  have xs: "xs = take k xs @ (xs ! k # drop (Suc k) xs)"
    using k by (simp add: id_take_nth_drop [symmetric])
  obtain res1 pk where pre: "spending_loop L ti tx ris rris pv2 acc i (take k xs) = (res1, pk)"
    by (cases "spending_loop L ti tx ris rris pv2 acc i (take k xs)")
  have len: "length (take k xs) = k" using k by simp
  have run': "(case spending_loop L ti tx ris rris pv2 acc i (take k xs) of
        (Inl e, p) \<Rightarrow> (Inl e, p)
      | (Inr acc', p) \<Rightarrow> spending_loop L ti tx ris rris p acc' (i + k) (xs ! k # drop (Suc k) xs))
      = (Inr invs, p)"
    using run spending_loop_append [of L ti tx ris rris pv2 acc i "take k xs" "xs ! k # drop (Suc k) xs"]
      xs len by metis
  show ?thesis
  proof (cases res1)
    case (Inl e)
    then show ?thesis using run' pre by simp
  next
    case (Inr acck)
    then have rest: "spending_loop L ti tx ris rris pk acck (i + k) (xs ! k # drop (Suc k) xs) = (Inr invs, p)"
      using run' pre by simp
    obtain res2 pk' where step: "spending_invocation L ti tx ris rris pk (i + k) (xs ! k) = (res2, pk')"
      by (cases "spending_invocation L ti tx ris rris pk (i + k) (xs ! k)")
    show ?thesis
    proof (cases res2)
      case (Inl e)
      then show ?thesis using rest step scr by simp
    next
      case (Inr invocation)
      then have "spending_loop L ti tx ris rris pk' (acck @ [invocation]) (Suc (i + k)) (drop (Suc k) xs)
          = (Inr invs, p)"
        using rest step scr by simp
      then obtain ys where ys: "invs = (acck @ [invocation]) @ ys"
        using spending_loop_extends by blast
      obtain zs where zs: "acck = acc @ zs"
        "map (\<lambda>c. purpose (script_context c)) zs
           = map (\<lambda>u. Spending (to_tx_out_ref (input u))) (filter is_script_input (take k xs))"
        using spending_loop_extends [of L ti tx ris rris pv2 acc i "take k xs" acck pk] pre \<open>res1 = Inr acck\<close>
        by blast
      have "length zs = length (filter is_script_input (take k xs))"
        using zs(2) by (metis length_map)
      then have l: "length acck = length acc + length (filter is_script_input (take k xs))"
        using zs(1) by simp
      have n: "length acck < length invs \<and> invs ! length acck = invocation"
        using ys by (simp add: nth_append)
      show ?thesis using pre \<open>res1 = Inr acck\<close> step Inr l n by auto
    qed
  qed
qed

lemma generate_fails_at:
  assumes ti: "to_tx_info L tx (map output ris) (map output rris) = Inr ti"
    and k: "k < length ris"
    and pre: "spending_loop L ti tx ris rris (plutus_v2_script (transaction_witness_set tx)) [] 0
                (take k ris) = (Inr acc, pk)"
    and scr: "is_script_input (ris ! k)"
    and step: "spending_invocation L ti tx ris rris pk k (ris ! k) = (Inl e, pk')"
  shows "generate_script_contexts_resolved L tx ris rris = (Inl e, pk')"
proof -
  have xs: "ris = take k ris @ (ris ! k # drop (Suc k) ris)"
    using k by (simp add: id_take_nth_drop [symmetric])
  have len: "length (take k ris) = k" using k by simp
  have "spending_loop L ti tx ris rris (plutus_v2_script (transaction_witness_set tx)) [] 0
          (take k ris @ (ris ! k # drop (Suc k) ris)) = (Inl e, pk')"
    using pre scr step len by (simp add: spending_loop_append)
  then have "spending_loop L ti tx ris rris (plutus_v2_script (transaction_witness_set tx)) [] 0 ris
      = (Inl e, pk')"
    using xs by simp
  then show ?thesis by (simp add: generate_script_contexts_resolved_def Let_def ti)
qed


lemma spending_loop_take_Suc:
  assumes k: "k < length xs"
    and pre: "spending_loop L ti tx ris rris pv2 acc i (take k xs) = (Inr acck, pk)"
    and scr: "is_script_input (xs ! k)"
  shows "spending_loop L ti tx ris rris pv2 acc i (take (Suc k) xs) =
     (case spending_invocation L ti tx ris rris pk (i + k) (xs ! k) of
        (Inl e, p) \<Rightarrow> (Inl e, p)
      | (Inr invocation, p) \<Rightarrow> (Inr (acck @ [invocation]), p))"
proof -
  have "take (Suc k) xs = take k xs @ [xs ! k]"
    using k by (simp add: take_Suc_conv_app_nth)
  moreover have "length (take k xs) = k" using k by simp
  ultimately show ?thesis
    using pre scr by (simp add: spending_loop_append split: prod.splits sum.splits)
qed

lemma spending_invocation_found:
  assumes "spending_redeemer tx i = Some r"
    and "spending_script L (snd (potential_scripts pv2 (reference_scripts rris ris))) u = Some s"
  shows "spending_invocation L ti tx ris rris pv2 i u =
     (case spending_datum L tx u of
        Inl e \<Rightarrow> (Inl e, snd (potential_scripts pv2 (reference_scripts rris ris)))
      | Inr d \<Rightarrow>
          (Inr \<lparr>script_type = s, datum = Some d, redeemer = r,
                script_context = ScriptContext ti (Spending (to_tx_out_ref (input u)))\<rparr>,
           snd (potential_scripts pv2 (reference_scripts rris ris))))"
  using assms by (simp add: spending_invocation_def Let_def)

lemma spending_redeemer_find:
  "spending_redeemer tx i =
     find (\<lambda>r. redeemer.index r = int i \<and> tag r = SPEND)
       (or_empty (transaction_witness_set.redeemer (transaction_witness_set tx)))"
  by (simp add: spending_redeemer_def or_empty_def split: option.splits)

section \<open>Redeemer selection\<close>

text \<open>
  C4, as the code has it. For a script-controlled input at position \<open>k\<close> of the
  resolved inputs, once the TxInfo is built and the inputs before \<open>k\<close> are resolved:
  when no redeemer of the witness set has index \<open>k\<close> and tag SPEND, the call raises
  MissingRedeemer for position \<open>k\<close>; otherwise the first such redeemer, in list order,
  is the one selected, and with the script and the datum found the loop goes on with the
  invocation built from it. Accordingly, in every list the resolver returns the
  invocation of that input (at the position given by the number of script-controlled
  inputs before \<open>k\<close>) carries the first matching redeemer. Several matching redeemers
  are not an error.
\<close>

theorem spending_redeemer_first_match:
  assumes k: "k < length ris" and scr: "is_script_input (ris ! k)"
  shows "(\<forall>invs p. generate_script_contexts_resolved L tx ris rris = (Inr invs, p) \<longrightarrow>
            length (filter is_script_input (take k ris)) < length invs \<and>
            find (\<lambda>r. redeemer.index r = int k \<and> tag r = SPEND)
              (or_empty (transaction_witness_set.redeemer (transaction_witness_set tx)))
              = Some (script_invocation.redeemer
                        (invs ! length (filter is_script_input (take k ris)))))
     \<and> (\<forall>ti acc pk.
            to_tx_info L tx (map output ris) (map output rris) = Inr ti
            \<and> spending_loop L ti tx ris rris (plutus_v2_script (transaction_witness_set tx)) [] 0
                 (take k ris) = (Inr acc, pk)
          \<longrightarrow> (case find (\<lambda>r. redeemer.index r = int k \<and> tag r = SPEND)
                        (or_empty (transaction_witness_set.redeemer (transaction_witness_set tx))) of
                 None \<Rightarrow>
                   generate_script_contexts_resolved L tx ris rris
                     = (Inl (MissingRedeemer SPEND k), pk)
               | Some r \<Rightarrow>
                   (\<forall>s d.
                      spending_script L (snd (potential_scripts pk (reference_scripts rris ris)))
                        (ris ! k) = Some s
                      \<and> spending_datum L tx (ris ! k) = Inr d
                    \<longrightarrow> spending_loop L ti tx ris rris
                          (plutus_v2_script (transaction_witness_set tx)) [] 0 (take (Suc k) ris)
                        = (Inr (acc @ [\<lparr>script_type = s, datum = Some d, redeemer = r,
                                        script_context =
                                          ScriptContext ti
                                            (Spending (to_tx_out_ref (input (ris ! k))))\<rparr>]),
                           snd (potential_scripts pk (reference_scripts rris ris))))))"
proof (intro conjI allI impI)
  fix invs p
  assume run: "generate_script_contexts_resolved L tx ris rris = (Inr invs, p)"
  obtain ti where
    loop: "spending_loop L ti tx ris rris (plutus_v2_script (transaction_witness_set tx)) [] 0 ris
             = (Inr invs, p)"
    using generate_Inr [OF run] by blast
  obtain pk invocation pk' where at:
    "spending_invocation L ti tx ris rris pk k (ris ! k) = (Inr invocation, pk')"
    "length (filter is_script_input (take k ris)) < length invs"
    "invs ! length (filter is_script_input (take k ris)) = invocation"
    using spending_loop_at [OF loop k scr, simplified] by blast
  obtain r where r: "spending_redeemer tx k = Some r" "script_invocation.redeemer invocation = r"
    using spending_invocation_Inr [OF at(1)] by auto
  show "length (filter is_script_input (take k ris)) < length invs"
    using at(2) by simp
  show "find (\<lambda>r. redeemer.index r = int k \<and> tag r = SPEND)
          (or_empty (transaction_witness_set.redeemer (transaction_witness_set tx)))
        = Some (script_invocation.redeemer (invs ! length (filter is_script_input (take k ris))))"
    using r at(3) by (simp add: spending_redeemer_find)
next
  fix ti acc pk
  assume h: "to_tx_info L tx (map output ris) (map output rris) = Inr ti
            \<and> spending_loop L ti tx ris rris (plutus_v2_script (transaction_witness_set tx)) [] 0
                 (take k ris) = (Inr acc, pk)"
  show "case find (\<lambda>r. redeemer.index r = int k \<and> tag r = SPEND)
               (or_empty (transaction_witness_set.redeemer (transaction_witness_set tx))) of
          None \<Rightarrow>
            generate_script_contexts_resolved L tx ris rris = (Inl (MissingRedeemer SPEND k), pk)
        | Some r \<Rightarrow>
            (\<forall>s d.
               spending_script L (snd (potential_scripts pk (reference_scripts rris ris)))
                 (ris ! k) = Some s
               \<and> spending_datum L tx (ris ! k) = Inr d
             \<longrightarrow> spending_loop L ti tx ris rris
                   (plutus_v2_script (transaction_witness_set tx)) [] 0 (take (Suc k) ris)
                 = (Inr (acc @ [\<lparr>script_type = s, datum = Some d, redeemer = r,
                                 script_context =
                                   ScriptContext ti (Spending (to_tx_out_ref (input (ris ! k))))\<rparr>]),
                    snd (potential_scripts pk (reference_scripts rris ris))))"
  proof (cases "spending_redeemer tx k")
    case None
    then have "spending_invocation L ti tx ris rris pk k (ris ! k)
        = (Inl (MissingRedeemer SPEND k), pk)"
      by (simp add: spending_invocation_def)
    then have "generate_script_contexts_resolved L tx ris rris = (Inl (MissingRedeemer SPEND k), pk)"
      using generate_fails_at [of L tx ris rris ti k acc pk] h k scr by blast
    then show ?thesis using None by (simp add: spending_redeemer_find)
  next
    case (Some r)
    have "spending_loop L ti tx ris rris
            (plutus_v2_script (transaction_witness_set tx)) [] 0 (take (Suc k) ris)
          = (Inr (acc @ [\<lparr>script_type = s, datum = Some d, redeemer = r,
                          script_context =
                            ScriptContext ti (Spending (to_tx_out_ref (input (ris ! k))))\<rparr>]),
             snd (potential_scripts pk (reference_scripts rris ris)))"
      if "spending_script L (snd (potential_scripts pk (reference_scripts rris ris))) (ris ! k)
            = Some s \<and> spending_datum L tx (ris ! k) = Inr d" for s d
    proof -
      have "spending_invocation L ti tx ris rris pk k (ris ! k)
          = (Inr \<lparr>script_type = s, datum = Some d, redeemer = r,
                  script_context =
                    ScriptContext ti (Spending (to_tx_out_ref (input (ris ! k))))\<rparr>,
             snd (potential_scripts pk (reference_scripts rris ris)))"
        using spending_invocation_found [of tx k r L pk rris ris "ris ! k" s ti] Some that by simp
      then show ?thesis
        using spending_loop_take_Suc [of k ris L ti tx ris rris _ "[]" 0 acc pk] h k scr by simp
    qed
    then show ?thesis using Some by (simp add: spending_redeemer_find [symmetric])
  qed
qed


theorem spending_redeemer_first_match_witness:
  "(case fst (generate_script_contexts_resolved ex_lib
              (ex_tx [ex_input 2, ex_input 0] None None None
                 (Some [ex_redeemer SPEND 1 1, ex_redeemer SPEND 1 2]) (Some [''S'']) None)
              [ex_key_utxo, ex_script_utxo] []) of
      Inr invs \<Rightarrow> script_invocation.redeemer (invs ! 0) = ex_redeemer SPEND 1 1
    | Inl e \<Rightarrow> False)
   \<and> map_sum id (map script_invocation.redeemer)
        (fst (spending_loop ex_lib
                (projr (to_tx_info ex_lib
                   (ex_tx [ex_input 2, ex_input 0] None None None
                      (Some [ex_redeemer SPEND 1 1, ex_redeemer SPEND 1 2]) (Some [''S'']) None)
                   (map output [ex_key_utxo, ex_script_utxo]) (map output [])))
                (ex_tx [ex_input 2, ex_input 0] None None None
                   (Some [ex_redeemer SPEND 1 1, ex_redeemer SPEND 1 2]) (Some [''S'']) None)
                [ex_key_utxo, ex_script_utxo] [] (Some [''S'']) [] 0
                (take (Suc 1) [ex_key_utxo, ex_script_utxo])))
      = Inr [ex_redeemer SPEND 1 1]
   \<and> generate_script_contexts_resolved ex_lib
        (ex_tx [ex_input 2, ex_input 0] None None None
           (Some [ex_redeemer SPEND 0 1, ex_redeemer MINT 1 2]) (Some [''S'']) None)
        [ex_key_utxo, ex_script_utxo] []
      = (Inl (MissingRedeemer SPEND 1), Some [''S''])"
proof -
  let ?ris = "[ex_key_utxo, ex_script_utxo]"
  let ?tx1 = "ex_tx [ex_input 2, ex_input 0] None None None
                 (Some [ex_redeemer SPEND 1 1, ex_redeemer SPEND 1 2]) (Some [''S'']) None"
  let ?tx2 = "ex_tx [ex_input 2, ex_input 0] None None None
                 (Some [ex_redeemer SPEND 0 1, ex_redeemer MINT 1 2]) (Some [''S'']) None"
  have k: "1 < length ?ris" by simp
  have scr: "is_script_input (?ris ! 1)"
    by (simp add: is_script_input_def ex_script_utxo_def ex_output_def)
  have n: "length (filter is_script_input (take 1 ?ris)) = 0"
    by (simp add: is_script_input_def ex_key_utxo_def ex_output_def)
  have ok: "\<not> isl (fst (generate_script_contexts_resolved ex_lib ?tx1 ?ris []))"
    by code_simp
  then obtain invs p where run: "generate_script_contexts_resolved ex_lib ?tx1 ?ris [] = (Inr invs, p)"
    by (cases "generate_script_contexts_resolved ex_lib ?tx1 ?ris []";
        cases "fst (generate_script_contexts_resolved ex_lib ?tx1 ?ris [])") auto
  have "find (\<lambda>r. redeemer.index r = int 1 \<and> tag r = SPEND)
          (or_empty (transaction_witness_set.redeemer (transaction_witness_set ?tx1)))
        = Some (script_invocation.redeemer (invs ! 0))"
    using spending_redeemer_first_match [OF k scr, of ex_lib ?tx1 "[]"] run n by auto
  then have 1: "script_invocation.redeemer (invs ! 0) = ex_redeemer SPEND 1 1"
    by (simp add: ex_tx_def or_empty_def ex_redeemer_def)
  have ti1: "\<not> isl (to_tx_info ex_lib ?tx1 (map output ?ris) (map output []))"
    by code_simp
  then obtain ti1 where ti1': "to_tx_info ex_lib ?tx1 (map output ?ris) (map output []) = Inr ti1"
    by (cases "to_tx_info ex_lib ?tx1 (map output ?ris) (map output [])") auto
  have pre1: "spending_loop ex_lib ti1 ?tx1 ?ris [] (plutus_v2_script (transaction_witness_set ?tx1)) [] 0
               (take 1 ?ris) = (Inr [], Some [''S''])"
    by (simp add: is_script_input_def ex_key_utxo_def ex_output_def ex_tx_def)
  have found: "find (\<lambda>r. redeemer.index r = int 1 \<and> tag r = SPEND)
                 (or_empty (transaction_witness_set.redeemer (transaction_witness_set ?tx1)))
               = Some (ex_redeemer SPEND 1 1)"
    by (simp add: ex_tx_def or_empty_def ex_redeemer_def)
  have sd: "spending_script ex_lib (snd (potential_scripts (Some [''S'']) (reference_scripts [] ?ris)))
              (?ris ! 1) = Some ''S''
            \<and> spending_datum ex_lib ?tx1 (?ris ! 1) = Inr (DInt 7)"
    by (simp add: spending_script_def potential_scripts_def reference_scripts_def
          List.map_filter_def ex_key_utxo_def ex_script_utxo_def ex_output_def ex_lib_def
          spending_datum_def)
  have "case find (\<lambda>r. redeemer.index r = int 1 \<and> tag r = SPEND)
               (or_empty (transaction_witness_set.redeemer (transaction_witness_set ?tx1))) of
          None \<Rightarrow>
            generate_script_contexts_resolved ex_lib ?tx1 ?ris [] = (Inl (MissingRedeemer SPEND 1), Some [''S''])
        | Some r \<Rightarrow>
            (\<forall>s d.
               spending_script ex_lib (snd (potential_scripts (Some [''S'']) (reference_scripts [] ?ris)))
                 (?ris ! 1) = Some s
               \<and> spending_datum ex_lib ?tx1 (?ris ! 1) = Inr d
             \<longrightarrow> spending_loop ex_lib ti1 ?tx1 ?ris []
                   (plutus_v2_script (transaction_witness_set ?tx1)) [] 0 (take (Suc 1) ?ris)
                 = (Inr ([] @ [\<lparr>script_type = s, datum = Some d, redeemer = r,
                                 script_context =
                                   ScriptContext ti1 (Spending (to_tx_out_ref (input (?ris ! 1))))\<rparr>]),
                    snd (potential_scripts (Some [''S'']) (reference_scripts [] ?ris))))"
    by (rule conjunct2 [OF spending_redeemer_first_match [OF k scr, of ex_lib ?tx1 "[]"],
          rule_format, of ti1 "[]" "Some [''S'']"])
       (use ti1' pre1 in simp)
  then have "spending_loop ex_lib ti1 ?tx1 ?ris []
                   (plutus_v2_script (transaction_witness_set ?tx1)) [] 0 (take (Suc 1) ?ris)
                 = (Inr ([] @ [\<lparr>script_type = ''S'', datum = Some (DInt 7),
                                 redeemer = ex_redeemer SPEND 1 1,
                                 script_context =
                                   ScriptContext ti1 (Spending (to_tx_out_ref (input (?ris ! 1))))\<rparr>]),
                    snd (potential_scripts (Some [''S'']) (reference_scripts [] ?ris)))"
    using found sd by simp
  then have 2: "map_sum id (map script_invocation.redeemer)
        (fst (spending_loop ex_lib ti1 ?tx1 ?ris [] (Some [''S'']) [] 0 (take (Suc 1) ?ris)))
      = Inr [ex_redeemer SPEND 1 1]"
    by (simp add: ex_tx_def)
  have ti2: "\<not> isl (to_tx_info ex_lib ?tx2 (map output ?ris) (map output []))"
    by code_simp
  then obtain ti2 where ti2': "to_tx_info ex_lib ?tx2 (map output ?ris) (map output []) = Inr ti2"
    by (cases "to_tx_info ex_lib ?tx2 (map output ?ris) (map output [])") auto
  have pre2: "spending_loop ex_lib ti2 ?tx2 ?ris [] (plutus_v2_script (transaction_witness_set ?tx2)) [] 0
               (take 1 ?ris) = (Inr [], Some [''S''])"
    by (simp add: is_script_input_def ex_key_utxo_def ex_output_def ex_tx_def)
  have none: "find (\<lambda>r. redeemer.index r = int 1 \<and> tag r = SPEND)
                 (or_empty (transaction_witness_set.redeemer (transaction_witness_set ?tx2))) = None"
    by (simp add: ex_tx_def or_empty_def ex_redeemer_def)
  have "case find (\<lambda>r. redeemer.index r = int 1 \<and> tag r = SPEND)
               (or_empty (transaction_witness_set.redeemer (transaction_witness_set ?tx2))) of
          None \<Rightarrow>
            generate_script_contexts_resolved ex_lib ?tx2 ?ris [] = (Inl (MissingRedeemer SPEND 1), Some [''S''])
        | Some r \<Rightarrow>
            (\<forall>s d.
               spending_script ex_lib (snd (potential_scripts (Some [''S'']) (reference_scripts [] ?ris)))
                 (?ris ! 1) = Some s
               \<and> spending_datum ex_lib ?tx2 (?ris ! 1) = Inr d
             \<longrightarrow> spending_loop ex_lib ti2 ?tx2 ?ris []
                   (plutus_v2_script (transaction_witness_set ?tx2)) [] 0 (take (Suc 1) ?ris)
                 = (Inr ([] @ [\<lparr>script_type = s, datum = Some d, redeemer = r,
                                 script_context =
                                   ScriptContext ti2 (Spending (to_tx_out_ref (input (?ris ! 1))))\<rparr>]),
                    snd (potential_scripts (Some [''S'']) (reference_scripts [] ?ris))))"
    by (rule conjunct2 [OF spending_redeemer_first_match [OF k scr, of ex_lib ?tx2 "[]"],
          rule_format, of ti2 "[]" "Some [''S'']"])
       (use ti2' pre2 in simp)
  then have 3: "generate_script_contexts_resolved ex_lib ?tx2 ?ris []
      = (Inl (MissingRedeemer SPEND 1), Some [''S''])"
    using none by simp
  show ?thesis using 1 2 3 run ti1' by simp
qed

text \<open>
  Four transactions at which the claim as stated fails. With two spend redeemers of
  index 0 for the one script input, the resolver returns an invocation carrying the
  first of them, where the claim demands MissingRedeemer. A script input at position 1
  without a redeemer, behind a script input at position 0 without a datum: the call
  raises MissingDatum for the earlier input. A script input without a redeemer in a
  transaction with a certificate: CertificatesUnsupported. A witness set whose redeemer
  field is \<open>None\<close>: TypeError, raised on line 180 while the TxInfo is built.
\<close>

theorem spending_redeemer_counterexample:
  "map_sum id (map script_invocation.redeemer)
     (fst (generate_script_contexts_resolved ex_lib
             (ex_tx [ex_input 0] None None None
                (Some [ex_redeemer SPEND 0 1, ex_redeemer SPEND 0 2]) (Some [''S'']) None)
             [ex_script_utxo] []))
   = Inr [ex_redeemer SPEND 0 1]
   \<and> fst (generate_script_contexts_resolved ex_lib
             (ex_tx [ex_input 4, ex_input 0] None None None
                (Some [ex_redeemer SPEND 0 0]) (Some [''S'']) None)
             [ex_bare_utxo, ex_script_utxo] [])
      = Inl (MissingDatum None)
   \<and> fst (generate_script_contexts_resolved ex_lib
             (ex_tx [ex_input 0] None None (Some [Certificate ''c'']) (Some []) (Some [''S'']) None)
             [ex_script_utxo] [])
      = Inl CertificatesUnsupported
   \<and> fst (generate_script_contexts_resolved ex_lib
             (ex_tx [ex_input 0] None None None None (Some [''S'']) None)
             [ex_script_utxo] [])
      = Inl TypeError"
  by code_simp

section \<open>Datum resolution\<close>

text \<open>
  C6, as the code has it. For a script-controlled input at position \<open>k\<close>, once the
  datum step is reached (the TxInfo is built, the inputs before \<open>k\<close> are resolved, and
  the input's redeemer and script are found): an inline datum is the datum of the
  invocation the loop goes on with; without one, a datum hash selects the first attached
  datum (\<open>plutus_data\<close> of the witness set) with that hash, and the call raises
  MissingDatum (with the hash) when there is none; with neither field the call raises
  MissingDatum (with no hash). Accordingly, in every list the resolver returns, the
  datum of that input's invocation is the inline datum or else the attached datum found
  by the hash.
\<close>

theorem spending_datum_resolution:
  assumes k: "k < length ris" and scr: "is_script_input (ris ! k)"
  shows "(\<forall>invs p. generate_script_contexts_resolved L tx ris rris = (Inr invs, p) \<longrightarrow>
            length (filter is_script_input (take k ris)) < length invs \<and>
            script_invocation.datum (invs ! length (filter is_script_input (take k ris)))
              = (case transaction_output.datum (output (ris ! k)) of
                   Some d \<Rightarrow> Some d
                 | None \<Rightarrow>
                     (case transaction_output.datum_hash (output (ris ! k)) of
                        Some h \<Rightarrow>
                          find (\<lambda>d. pycardano.datum_hash L d = h)
                            (or_empty (plutus_data (transaction_witness_set tx)))
                      | None \<Rightarrow> None))
            \<and> script_invocation.datum (invs ! length (filter is_script_input (take k ris))) \<noteq> None)
     \<and> (\<forall>ti acc pk r s.
            to_tx_info L tx (map output ris) (map output rris) = Inr ti
            \<and> spending_loop L ti tx ris rris (plutus_v2_script (transaction_witness_set tx)) [] 0
                 (take k ris) = (Inr acc, pk)
            \<and> spending_redeemer tx k = Some r
            \<and> spending_script L (snd (potential_scripts pk (reference_scripts rris ris))) (ris ! k)
                 = Some s
          \<longrightarrow> (case (case transaction_output.datum (output (ris ! k)) of
                         Some d \<Rightarrow> Some d
                       | None \<Rightarrow>
                           (case transaction_output.datum_hash (output (ris ! k)) of
                              Some h \<Rightarrow>
                                find (\<lambda>d. pycardano.datum_hash L d = h)
                                  (or_empty (plutus_data (transaction_witness_set tx)))
                            | None \<Rightarrow> None)) of
                 Some d \<Rightarrow>
                   spending_loop L ti tx ris rris
                       (plutus_v2_script (transaction_witness_set tx)) [] 0 (take (Suc k) ris)
                     = (Inr (acc @ [\<lparr>script_type = s, datum = Some d, redeemer = r,
                                     script_context =
                                       ScriptContext ti
                                         (Spending (to_tx_out_ref (input (ris ! k))))\<rparr>]),
                        snd (potential_scripts pk (reference_scripts rris ris)))
               | None \<Rightarrow>
                   generate_script_contexts_resolved L tx ris rris
                     = (Inl (MissingDatum (transaction_output.datum_hash (output (ris ! k)))),
                        snd (potential_scripts pk (reference_scripts rris ris)))))"
proof (intro conjI allI impI)
  fix invs p
  assume run: "generate_script_contexts_resolved L tx ris rris = (Inr invs, p)"
  obtain ti where
    loop: "spending_loop L ti tx ris rris (plutus_v2_script (transaction_witness_set tx)) [] 0 ris
             = (Inr invs, p)"
    using generate_Inr [OF run] by blast
  obtain pk invocation pk' where at:
    "spending_invocation L ti tx ris rris pk k (ris ! k) = (Inr invocation, pk')"
    "length (filter is_script_input (take k ris)) < length invs"
    "invs ! length (filter is_script_input (take k ris)) = invocation"
    using spending_loop_at [OF loop k scr, simplified] by blast
  obtain d where d: "spending_datum L tx (ris ! k) = Inr d" "script_invocation.datum invocation = Some d"
    using spending_invocation_Inr [OF at(1)] by auto
  show "length (filter is_script_input (take k ris)) < length invs"
    using at(2) by simp
  show "script_invocation.datum (invs ! length (filter is_script_input (take k ris)))
          = (case transaction_output.datum (output (ris ! k)) of
               Some d \<Rightarrow> Some d
             | None \<Rightarrow>
                 (case transaction_output.datum_hash (output (ris ! k)) of
                    Some h \<Rightarrow>
                      find (\<lambda>d. pycardano.datum_hash L d = h)
                        (or_empty (plutus_data (transaction_witness_set tx)))
                  | None \<Rightarrow> None))"
    using d at(3) by (auto simp: spending_datum_def split: option.splits)
  show "script_invocation.datum (invs ! length (filter is_script_input (take k ris))) \<noteq> None"
    using d at(3) by simp
next
  fix ti acc pk r s
  assume h: "to_tx_info L tx (map output ris) (map output rris) = Inr ti
            \<and> spending_loop L ti tx ris rris (plutus_v2_script (transaction_witness_set tx)) [] 0
                 (take k ris) = (Inr acc, pk)
            \<and> spending_redeemer tx k = Some r
            \<and> spending_script L (snd (potential_scripts pk (reference_scripts rris ris))) (ris ! k)
                 = Some s"
  let ?sel = "case transaction_output.datum (output (ris ! k)) of
                 Some d \<Rightarrow> Some d
               | None \<Rightarrow>
                   (case transaction_output.datum_hash (output (ris ! k)) of
                      Some h \<Rightarrow>
                        find (\<lambda>d. pycardano.datum_hash L d = h)
                          (or_empty (plutus_data (transaction_witness_set tx)))
                    | None \<Rightarrow> None)"
  have sd: "spending_datum L tx (ris ! k)
      = (case ?sel of
           Some d \<Rightarrow> Inr d
         | None \<Rightarrow> Inl (MissingDatum (transaction_output.datum_hash (output (ris ! k)))))"
    by (auto simp: spending_datum_def split: option.splits)
  have step: "spending_invocation L ti tx ris rris pk k (ris ! k) =
     (case spending_datum L tx (ris ! k) of
        Inl e \<Rightarrow> (Inl e, snd (potential_scripts pk (reference_scripts rris ris)))
      | Inr d \<Rightarrow>
          (Inr \<lparr>script_type = s, datum = Some d, redeemer = r,
                script_context = ScriptContext ti (Spending (to_tx_out_ref (input (ris ! k))))\<rparr>,
           snd (potential_scripts pk (reference_scripts rris ris))))"
    using spending_invocation_found [of tx k r L pk rris ris "ris ! k" s ti] h by simp
  show "case ?sel of
          Some d \<Rightarrow>
            spending_loop L ti tx ris rris
                (plutus_v2_script (transaction_witness_set tx)) [] 0 (take (Suc k) ris)
              = (Inr (acc @ [\<lparr>script_type = s, datum = Some d, redeemer = r,
                              script_context =
                                ScriptContext ti (Spending (to_tx_out_ref (input (ris ! k))))\<rparr>]),
                 snd (potential_scripts pk (reference_scripts rris ris)))
        | None \<Rightarrow>
            generate_script_contexts_resolved L tx ris rris
              = (Inl (MissingDatum (transaction_output.datum_hash (output (ris ! k)))),
                 snd (potential_scripts pk (reference_scripts rris ris)))"
  proof (cases ?sel)
    case None
    then have "spending_invocation L ti tx ris rris pk k (ris ! k)
        = (Inl (MissingDatum (transaction_output.datum_hash (output (ris ! k)))),
           snd (potential_scripts pk (reference_scripts rris ris)))"
      using step sd by simp
    then have "generate_script_contexts_resolved L tx ris rris
        = (Inl (MissingDatum (transaction_output.datum_hash (output (ris ! k)))),
           snd (potential_scripts pk (reference_scripts rris ris)))"
      using generate_fails_at [of L tx ris rris ti k acc pk] h k scr by blast
    then show ?thesis using None by simp
  next
    case (Some d)
    then have "spending_invocation L ti tx ris rris pk k (ris ! k)
        = (Inr \<lparr>script_type = s, datum = Some d, redeemer = r,
                script_context = ScriptContext ti (Spending (to_tx_out_ref (input (ris ! k))))\<rparr>,
           snd (potential_scripts pk (reference_scripts rris ris)))"
      using step sd by simp
    then have "spending_loop L ti tx ris rris
                (plutus_v2_script (transaction_witness_set tx)) [] 0 (take (Suc k) ris)
              = (Inr (acc @ [\<lparr>script_type = s, datum = Some d, redeemer = r,
                              script_context =
                                ScriptContext ti (Spending (to_tx_out_ref (input (ris ! k))))\<rparr>]),
                 snd (potential_scripts pk (reference_scripts rris ris)))"
      using spending_loop_take_Suc [of k ris L ti tx ris rris _ "[]" 0 acc pk] h k scr by simp
    then show ?thesis using Some by simp
  qed
qed


theorem spending_datum_resolution_witness:
  "(case fst (generate_script_contexts_resolved ex_lib
              (ex_tx [ex_input 0, ex_input 3] None None None
                 (Some [ex_redeemer SPEND 0 0, ex_redeemer SPEND 1 0]) (Some [''S''])
                 (Some [DBytes ''x'', DBytes ''d'']))
              [ex_script_utxo, ex_hash_utxo] []) of
      Inr invs \<Rightarrow> script_invocation.datum (invs ! 0) = Some (DInt 7)
                   \<and> script_invocation.datum (invs ! 1) = Some (DBytes ''d'')
    | Inl e \<Rightarrow> False)
   \<and> map_sum id (map script_invocation.datum)
        (fst (spending_loop ex_lib
                (projr (to_tx_info ex_lib
                   (ex_tx [ex_input 3] None None None (Some [ex_redeemer SPEND 0 0]) (Some [''S''])
                      (Some [DBytes ''x'', DBytes ''d'']))
                   (map output [ex_hash_utxo]) (map output [])))
                (ex_tx [ex_input 3] None None None (Some [ex_redeemer SPEND 0 0]) (Some [''S''])
                   (Some [DBytes ''x'', DBytes ''d'']))
                [ex_hash_utxo] [] (Some [''S'']) [] 0 (take (Suc 0) [ex_hash_utxo])))
      = Inr [Some (DBytes ''d'')]
   \<and> generate_script_contexts_resolved ex_lib
        (ex_tx [ex_input 3] None None None (Some [ex_redeemer SPEND 0 0]) (Some [''S''])
           (Some [DBytes ''x'']))
        [ex_hash_utxo] []
      = (Inl (MissingDatum (Some ''#d'')), Some [''S''])
   \<and> generate_script_contexts_resolved ex_lib
        (ex_tx [ex_input 4] None None None (Some [ex_redeemer SPEND 0 0]) (Some [''S''])
           (Some [DBytes ''d'']))
        [ex_bare_utxo] []
      = (Inl (MissingDatum None), Some [''S''])"
proof -
  let ?ris = "[ex_script_utxo, ex_hash_utxo]"
  let ?risH = "[ex_hash_utxo]"
  let ?risB = "[ex_bare_utxo]"
  let ?tx1 = "ex_tx [ex_input 0, ex_input 3] None None None
                 (Some [ex_redeemer SPEND 0 0, ex_redeemer SPEND 1 0]) (Some [''S''])
                 (Some [DBytes ''x'', DBytes ''d''])"
  let ?tx2 = "ex_tx [ex_input 3] None None None (Some [ex_redeemer SPEND 0 0]) (Some [''S''])
           (Some [DBytes ''x''])"
  let ?tx3 = "ex_tx [ex_input 4] None None None (Some [ex_redeemer SPEND 0 0]) (Some [''S''])
           (Some [DBytes ''d''])"
  let ?tx4 = "ex_tx [ex_input 3] None None None (Some [ex_redeemer SPEND 0 0]) (Some [''S''])
                      (Some [DBytes ''x'', DBytes ''d''])"
  have scr: "is_script_input ex_script_utxo" "is_script_input ex_hash_utxo"
    "is_script_input ex_bare_utxo"
    by (simp_all add: is_script_input_def ex_script_utxo_def ex_hash_utxo_def ex_bare_utxo_def
          ex_output_def)
  have ok: "\<not> isl (fst (generate_script_contexts_resolved ex_lib ?tx1 ?ris []))"
    by code_simp
  then obtain invs p where run: "generate_script_contexts_resolved ex_lib ?tx1 ?ris [] = (Inr invs, p)"
    by (cases "generate_script_contexts_resolved ex_lib ?tx1 ?ris []";
        cases "fst (generate_script_contexts_resolved ex_lib ?tx1 ?ris [])") auto
  have 0: "script_invocation.datum (invs ! 0) = Some (DInt 7)"
    using spending_datum_resolution [of 0 ?ris ex_lib ?tx1 "[]"] run scr
    by (simp add: ex_script_utxo_def ex_output_def)
  have 1: "script_invocation.datum (invs ! 1) = Some (DBytes ''d'')"
    using spending_datum_resolution [of 1 ?ris ex_lib ?tx1 "[]"] run scr
    by (simp add: ex_hash_utxo_def ex_output_def ex_tx_def or_empty_def ex_lib_def)
  have ti2: "\<not> isl (to_tx_info ex_lib ?tx2 (map output ?risH) (map output []))"
    by code_simp
  then obtain ti2 where ti2': "to_tx_info ex_lib ?tx2 (map output ?risH) (map output []) = Inr ti2"
    by (cases "to_tx_info ex_lib ?tx2 (map output ?risH) (map output [])") auto
  have "case (case transaction_output.datum (output (?risH ! 0)) of
                 Some d \<Rightarrow> Some d
               | None \<Rightarrow>
                   (case transaction_output.datum_hash (output (?risH ! 0)) of
                      Some h \<Rightarrow>
                        find (\<lambda>d. pycardano.datum_hash ex_lib d = h)
                          (or_empty (plutus_data (transaction_witness_set ?tx2)))
                    | None \<Rightarrow> None)) of
          Some d \<Rightarrow>
            spending_loop ex_lib ti2 ?tx2 ?risH []
                (plutus_v2_script (transaction_witness_set ?tx2)) [] 0 (take (Suc 0) ?risH)
              = (Inr ([] @ [\<lparr>script_type = ''S'', datum = Some d, redeemer = ex_redeemer SPEND 0 0,
                              script_context =
                                ScriptContext ti2 (Spending (to_tx_out_ref (input (?risH ! 0))))\<rparr>]),
                 snd (potential_scripts (Some [''S'']) (reference_scripts [] ?risH)))
        | None \<Rightarrow>
            generate_script_contexts_resolved ex_lib ?tx2 ?risH []
              = (Inl (MissingDatum (transaction_output.datum_hash (output (?risH ! 0)))),
                 snd (potential_scripts (Some [''S'']) (reference_scripts [] ?risH)))"
    by (rule conjunct2 [OF spending_datum_resolution [of 0 "?risH" ex_lib ?tx2 "[]"],
          rule_format, of ti2 "[]" "Some [''S'']" "ex_redeemer SPEND 0 0" "''S''"])
       (use ti2' scr in \<open>simp_all add: ex_tx_def spending_redeemer_def ex_redeemer_def
          spending_script_def potential_scripts_def reference_scripts_def ex_hash_utxo_def
          ex_bare_utxo_def ex_script_utxo_def
          ex_output_def ex_lib_def or_empty_def List.map_filter_def\<close>)
  then have 2: "generate_script_contexts_resolved ex_lib ?tx2 ?risH []
      = (Inl (MissingDatum (Some ''#d'')), Some [''S''])"
    by (simp add: ex_tx_def ex_hash_utxo_def ex_output_def ex_lib_def or_empty_def
          potential_scripts_def reference_scripts_def List.map_filter_def)
  have ti3: "\<not> isl (to_tx_info ex_lib ?tx3 (map output ?risB) (map output []))"
    by code_simp
  then obtain ti3 where ti3': "to_tx_info ex_lib ?tx3 (map output ?risB) (map output []) = Inr ti3"
    by (cases "to_tx_info ex_lib ?tx3 (map output ?risB) (map output [])") auto
  have "case (case transaction_output.datum (output (?risB ! 0)) of
                 Some d \<Rightarrow> Some d
               | None \<Rightarrow>
                   (case transaction_output.datum_hash (output (?risB ! 0)) of
                      Some h \<Rightarrow>
                        find (\<lambda>d. pycardano.datum_hash ex_lib d = h)
                          (or_empty (plutus_data (transaction_witness_set ?tx3)))
                    | None \<Rightarrow> None)) of
          Some d \<Rightarrow>
            spending_loop ex_lib ti3 ?tx3 ?risB []
                (plutus_v2_script (transaction_witness_set ?tx3)) [] 0 (take (Suc 0) ?risB)
              = (Inr ([] @ [\<lparr>script_type = ''S'', datum = Some d, redeemer = ex_redeemer SPEND 0 0,
                              script_context =
                                ScriptContext ti3 (Spending (to_tx_out_ref (input (?risB ! 0))))\<rparr>]),
                 snd (potential_scripts (Some [''S'']) (reference_scripts [] ?risB)))
        | None \<Rightarrow>
            generate_script_contexts_resolved ex_lib ?tx3 ?risB []
              = (Inl (MissingDatum (transaction_output.datum_hash (output (?risB ! 0)))),
                 snd (potential_scripts (Some [''S'']) (reference_scripts [] ?risB)))"
    by (rule conjunct2 [OF spending_datum_resolution [of 0 "?risB" ex_lib ?tx3 "[]"],
          rule_format, of ti3 "[]" "Some [''S'']" "ex_redeemer SPEND 0 0" "''S''"])
       (use ti3' scr in \<open>simp_all add: ex_tx_def spending_redeemer_def ex_redeemer_def
          spending_script_def potential_scripts_def reference_scripts_def ex_hash_utxo_def
          ex_bare_utxo_def ex_script_utxo_def
          ex_output_def ex_lib_def or_empty_def List.map_filter_def\<close>)
  then have 3: "generate_script_contexts_resolved ex_lib ?tx3 ?risB []
      = (Inl (MissingDatum None), Some [''S''])"
    by (simp add: ex_tx_def ex_bare_utxo_def ex_output_def ex_lib_def or_empty_def
          potential_scripts_def reference_scripts_def List.map_filter_def)
  have ti4: "\<not> isl (to_tx_info ex_lib ?tx4 (map output ?risH) (map output []))"
    by code_simp
  then obtain ti4 where ti4': "to_tx_info ex_lib ?tx4 (map output ?risH) (map output []) = Inr ti4"
    by (cases "to_tx_info ex_lib ?tx4 (map output ?risH) (map output [])") auto
  have "case (case transaction_output.datum (output (?risH ! 0)) of
                 Some d \<Rightarrow> Some d
               | None \<Rightarrow>
                   (case transaction_output.datum_hash (output (?risH ! 0)) of
                      Some h \<Rightarrow>
                        find (\<lambda>d. pycardano.datum_hash ex_lib d = h)
                          (or_empty (plutus_data (transaction_witness_set ?tx4)))
                    | None \<Rightarrow> None)) of
          Some d \<Rightarrow>
            spending_loop ex_lib ti4 ?tx4 ?risH []
                (plutus_v2_script (transaction_witness_set ?tx4)) [] 0 (take (Suc 0) ?risH)
              = (Inr ([] @ [\<lparr>script_type = ''S'', datum = Some d, redeemer = ex_redeemer SPEND 0 0,
                              script_context =
                                ScriptContext ti4 (Spending (to_tx_out_ref (input (?risH ! 0))))\<rparr>]),
                 snd (potential_scripts (Some [''S'']) (reference_scripts [] ?risH)))
        | None \<Rightarrow>
            generate_script_contexts_resolved ex_lib ?tx4 ?risH []
              = (Inl (MissingDatum (transaction_output.datum_hash (output (?risH ! 0)))),
                 snd (potential_scripts (Some [''S'']) (reference_scripts [] ?risH)))"
    by (rule conjunct2 [OF spending_datum_resolution [of 0 "?risH" ex_lib ?tx4 "[]"],
          rule_format, of ti4 "[]" "Some [''S'']" "ex_redeemer SPEND 0 0" "''S''"])
       (use ti4' scr in \<open>simp_all add: ex_tx_def spending_redeemer_def ex_redeemer_def
          spending_script_def potential_scripts_def reference_scripts_def ex_hash_utxo_def
          ex_bare_utxo_def ex_script_utxo_def
          ex_output_def ex_lib_def or_empty_def List.map_filter_def\<close>)
  then have 4: "map_sum id (map script_invocation.datum)
        (fst (spending_loop ex_lib ti4 ?tx4 ?risH [] (Some [''S'']) [] 0 (take (Suc 0) ?risH)))
      = Inr [Some (DBytes ''d'')]"
    by (simp add: ex_tx_def ex_hash_utxo_def ex_output_def ex_lib_def or_empty_def)
  show ?thesis using 0 1 2 3 4 run ti4' by simp
qed

text \<open>
  Four transactions whose one bare script input (no inline datum, no datum hash) does
  not make the call raise MissingDatum, because an earlier step raises: no redeemer for
  it (MissingRedeemer); a redeemer but no attached script with its hash
  (UnsupportedScript); an earlier script input without a redeemer (MissingRedeemer for
  that input); a certificate in the body (CertificatesUnsupported).
\<close>

theorem spending_datum_counterexample:
  "fst (generate_script_contexts_resolved ex_lib
          (ex_tx [ex_input 4] None None None (Some []) (Some [''S'']) None)
          [ex_bare_utxo] [])
     = Inl (MissingRedeemer SPEND 0)
   \<and> fst (generate_script_contexts_resolved ex_lib
          (ex_tx [ex_input 4] None None None (Some [ex_redeemer SPEND 0 0]) (Some [''A'']) None)
          [ex_bare_utxo] [])
     = Inl UnsupportedScript
   \<and> fst (generate_script_contexts_resolved ex_lib
          (ex_tx [ex_input 0, ex_input 4] None None None (Some [ex_redeemer SPEND 1 0])
             (Some [''S'']) None)
          [ex_script_utxo, ex_bare_utxo] [])
     = Inl (MissingRedeemer SPEND 0)
   \<and> fst (generate_script_contexts_resolved ex_lib
          (ex_tx [ex_input 4] None None (Some [Certificate ''c'']) (Some [ex_redeemer SPEND 0 0])
             (Some [''S'']) None)
          [ex_bare_utxo] [])
     = Inl CertificatesUnsupported"
  by code_simp

section \<open>Script lookup and the witness set's script list\<close>

text \<open>
  With no attached script, \<open>potential_scripts\<close> is a fresh list and the search sees
  none of the reference scripts; with an attached script, \<open>potential_scripts\<close> is the
  witness set's list itself and the appends land there.
\<close>

lemma spending_script_without_witness_scripts:
  "pv2 = None \<or> pv2 = Some [] \<Longrightarrow> spending_script L (snd (potential_scripts pv2 refs)) u = None"
  by (auto simp: potential_scripts_def spending_script_def)

lemma potential_scripts_aliased:
  "snd (potential_scripts (Some (s # ss)) refs) = Some ((s # ss) @ refs)"
  by (simp add: potential_scripts_def)

text \<open>
  C1 at an input where the pool of the design and the list the code searches differ:
  the witness set has no attached script, and a reference input carries the script
  \<open>S\<close> whose hash is the spending credential of the one script-controlled input (its
  spend redeemer and inline datum are present). The pool of C1 contains \<open>S\<close>; the
  resolver raises UnsupportedScript.
\<close>

theorem reference_script_not_searched:
  "generate_script_contexts_resolved ex_lib
     (ex_tx [ex_input 0] (Some [ex_input 1]) None None (Some [ex_redeemer SPEND 0 0]) None None)
     [ex_script_utxo] [ex_ref_utxo]
   = (Inl UnsupportedScript, None)"
  by code_simp

text \<open>
  C5 at an input where the resolver writes to the transaction: the witness set holds one
  attached script \<open>A\<close> and a reference input carries \<open>S\<close>. The call returns one
  invocation (running \<open>S\<close>), and the witness set's script list is \<open>[A, S]\<close> afterwards.
\<close>

theorem witness_script_list_grows:
  "plutus_v2_script (transaction_witness_set
      (ex_tx [ex_input 0] (Some [ex_input 1]) None None (Some [ex_redeemer SPEND 0 0])
         (Some [''A'']) None)) = Some [''A'']
   \<and> snd (generate_script_contexts_resolved ex_lib
        (ex_tx [ex_input 0] (Some [ex_input 1]) None None (Some [ex_redeemer SPEND 0 0])
           (Some [''A'']) None)
        [ex_script_utxo] [ex_ref_utxo]) = Some [''A'', ''S'']
   \<and> map_sum id (map script_type)
        (fst (generate_script_contexts_resolved ex_lib
           (ex_tx [ex_input 0] (Some [ex_input 1]) None None (Some [ex_redeemer SPEND 0 0])
              (Some [''A'']) None)
           [ex_script_utxo] [ex_ref_utxo])) = Inr [''S'']"
  by code_simp

section \<open>Minting\<close>

text \<open>
  C2 at its own scenario: a mint of the one policy \<open>#M\<close>, a mint redeemer with index
  0, and the attached script \<open>M\<close> whose hash is \<open>#M\<close>. When the policy's asset is
  empty the second loop is reached and the call raises AttributeError where the script
  object has no \<open>hash\<close> method, and TypeError (three arguments for the four fields of
  \<open>ScriptInvocation\<close>) where it has one. When the policy mints a token the call raises
  TypeError earlier, on line 87, while the TxInfo is built. No invocation is returned
  either way.
\<close>

theorem minting_invocation_raises:
  "fst (generate_script_contexts_resolved (ex_lib\<lparr>hash_attr := h\<rparr>)
          (ex_tx [] None (Some [(''#M'', [])]) None (Some [ex_redeemer MINT 0 0])
             (Some [''M'']) None)
          [] [])
     = Inl (case h ''M'' of None \<Rightarrow> AttributeError | Some x \<Rightarrow> TypeError)
   \<and> fst (generate_script_contexts_resolved (ex_lib\<lparr>hash_attr := h\<rparr>)
          (ex_tx [] None (Some [(''#M'', [(''T'', 1)])]) None (Some [ex_redeemer MINT 0 0])
             (Some [''M'']) None)
          [] [])
     = Inl TypeError"
  by (simp add: generate_script_contexts_resolved_def to_tx_info_def Let_def ex_lib_def ex_tx_def
        ex_redeemer_def mint_policies_def minting_invocation_def to_wdrl_def
        value_to_value_def multiasset_to_value_def to_shallow_primitive_def asset_iter_def
        unpack_asset_name_def dict_of_def
        split: option.splits)

section \<open>Order of the invocations\<close>

text \<open>
  C10. The purposes of a returned list are: Spending of the out-reference of each
  script-controlled input, in the order of the resolved inputs (inputs without a script
  credential contribute nothing), followed by Minting of each policy id of the mint
  field, in the order of the mint. (A call returns only when the mint is absent or
  empty: by \<open>minting_loop_Inr_iff\<close> the second loop never gets past a policy.)
\<close>

theorem invocation_order:
  assumes run: "generate_script_contexts_resolved L tx ris rris = (Inr invs, p)"
  shows "map (\<lambda>c. purpose (script_context c)) invs
           = map (\<lambda>u. Spending (to_tx_out_ref (input u))) (filter is_script_input ris)
             @ map Minting (case mint (transaction_body tx) of None \<Rightarrow> [] | Some m \<Rightarrow> map fst m)"
proof -
  obtain ti where
    loop: "spending_loop L ti tx ris rris (plutus_v2_script (transaction_witness_set tx)) [] 0 ris
             = (Inr invs, p)"
    and mint: "mint_policies tx = []"
    using generate_Inr [OF run] by blast
  have "map (\<lambda>c. purpose (script_context c)) invs
      = map (\<lambda>u. Spending (to_tx_out_ref (input u))) (filter is_script_input ris)"
    using spending_loop_extends [OF loop] by auto
  moreover have "(case mint (transaction_body tx) of None \<Rightarrow> [] | Some m \<Rightarrow> map fst m) = []"
    using mint by (simp add: mint_policies_def)
  ultimately show ?thesis by simp
qed

theorem invocation_order_witness:
  "map_sum id (map (\<lambda>c. purpose (script_context c)))
     (fst (generate_script_contexts_resolved ex_lib
             (ex_tx [ex_input 0, ex_input 2, ex_input 3] None (Some []) None
                (Some [ex_redeemer SPEND 2 0, ex_redeemer SPEND 0 0]) (Some [''S''])
                (Some [DBytes ''d'']))
             [ex_script_utxo, ex_key_utxo, ex_hash_utxo] []))
   = Inr [Spending (TxOutRef (TxId ''tx'') 0), Spending (TxOutRef (TxId ''tx'') 3)]"
proof -
  let ?ris = "[ex_script_utxo, ex_key_utxo, ex_hash_utxo]"
  let ?tx = "ex_tx [ex_input 0, ex_input 2, ex_input 3] None (Some []) None
                (Some [ex_redeemer SPEND 2 0, ex_redeemer SPEND 0 0]) (Some [''S''])
                (Some [DBytes ''d''])"
  have ok: "\<not> isl (fst (generate_script_contexts_resolved ex_lib ?tx ?ris []))"
    by code_simp
  then obtain invs p where run: "generate_script_contexts_resolved ex_lib ?tx ?ris [] = (Inr invs, p)"
    by (cases "generate_script_contexts_resolved ex_lib ?tx ?ris []";
        cases "fst (generate_script_contexts_resolved ex_lib ?tx ?ris [])") auto
  have "map (\<lambda>c. purpose (script_context c)) invs
       = map (\<lambda>u. Spending (to_tx_out_ref (input u))) (filter is_script_input ?ris)
         @ map Minting (case mint (transaction_body ?tx) of None \<Rightarrow> [] | Some m \<Rightarrow> map fst m)"
    using invocation_order [OF run] .
  then show ?thesis using run
    by (simp add: is_script_input_def ex_script_utxo_def ex_key_utxo_def ex_hash_utxo_def
          ex_output_def to_tx_out_ref_def ex_input_def ex_tx_def)
qed

end
